theory Spec2Isabelle
  imports Main "HOL-Library.Sublist" "HOL-Library.AList"
begin

section \<open>JavaScript values\<close>

text \<open>
  The plugin receives its parameters as \<open>Record<string, any>\<close> and reads vendor responses
  that axios types as \<open>any\<close>; the TypeScript annotations are erased when the code runs. The
  model therefore works on run-time values: JSON-like data, where an object is a list of
  properties in insertion order. Numbers are integers or NaN: the modelled code tests numbers
  for truthiness, compares them and prints them, and does no other arithmetic on them than the
  age of a cache entry. Only own properties are read: none of the property names the code
  reads under a fixed name is inherited from a prototype. JavaScript lists the properties
  whose names are array indices before the others; the model keeps insertion order for all of
  them, which is the order in which a payload is written out and nothing else.
\<close>

datatype number = Finite int | NaN

datatype jsval =
    JUndefined
  | JNull
  | JBool bool
  | JNum number
  | JStr string
  | JArr "jsval list"
  | JObj "(string \<times> jsval) list"

text \<open>A rejected promise or a thrown exception carries one of these values.\<close>

datatype response = Response (status: int) (data: jsval)

datatype error =
    Error string
  | TypeError
  | AxiosError string "response option"

definition and_then :: "error + 'a \<Rightarrow> ('a \<Rightarrow> error + 'b) \<Rightarrow> error + 'b" where
  "and_then m f = (case m of Inl e \<Rightarrow> Inl e | Inr v \<Rightarrow> f v)"

fun truthy :: "jsval \<Rightarrow> bool" where
  "truthy JUndefined = False"
| "truthy JNull = False"
| "truthy (JBool b) = b"
| "truthy (JNum (Finite n)) = (n \<noteq> 0)"
| "truthy (JNum NaN) = False"
| "truthy (JStr s) = (s \<noteq> [])"
| "truthy (JArr xs) = True"
| "truthy (JObj kvs) = True"

definition js_or :: "jsval \<Rightarrow> jsval \<Rightarrow> jsval" where
  "js_or a b = (if truthy a then a else b)"

text \<open>
  Reading a property: \<open>v.k\<close>, for the names that the code reads. On \<open>undefined\<close> and
  \<open>null\<close> it throws. The first element, \<open>v[0]\<close>, is read by \<open>index0\<close> below.
\<close>

fun field :: "jsval \<Rightarrow> string \<Rightarrow> jsval" where
  "field (JObj kvs) k = (case map_of kvs k of None \<Rightarrow> JUndefined | Some v \<Rightarrow> v)"
| "field (JArr xs) k = (if k = ''length'' then JNum (Finite (int (length xs))) else JUndefined)"
| "field (JStr s) k = (if k = ''length'' then JNum (Finite (int (length s))) else JUndefined)"
| "field v k = JUndefined"

definition nullish :: "jsval \<Rightarrow> bool" where
  "nullish v = (v = JUndefined \<or> v = JNull)"

definition get_prop :: "jsval \<Rightarrow> string \<Rightarrow> error + jsval" where
  "get_prop v k = (if nullish v then Inl TypeError else Inr (field v k))"

text \<open>Reading the first element: \<open>v[0]\<close>.\<close>

fun index0 :: "jsval \<Rightarrow> error + jsval" where
  "index0 JUndefined = Inl TypeError"
| "index0 JNull = Inl TypeError"
| "index0 (JArr xs) = Inr (case xs of [] \<Rightarrow> JUndefined | x # _ \<Rightarrow> x)"
| "index0 (JStr s) = Inr (case s of [] \<Rightarrow> JUndefined | c # _ \<Rightarrow> JStr [c])"
| "index0 (JObj kvs) = Inr (field (JObj kvs) ''0'')"
| "index0 v = Inr JUndefined"

text \<open>
  Writing a property by assignment, \<open>o[k] = v\<close>, on an object that an object literal made:
  the value of an existing own property is replaced in place and a new property is appended,
  as \<^const>\<open>AList.update\<close> does. The name \<open>__proto__\<close> is the exception. Unless \<open>o\<close> has an
  own property of that name, the assignment goes to the accessor that \<open>Object.prototype\<close>
  has for it: it changes the prototype of \<open>o\<close> and adds no own property. Only own properties
  are written out when the object is sent as JSON, so the model keeps those.
\<close>

definition obj_set :: "(string \<times> jsval) list \<Rightarrow> string \<Rightarrow> jsval \<Rightarrow> (string \<times> jsval) list" where
  "obj_set kvs k v =
     (if k = ''__proto__'' \<and> map_of kvs k = None then kvs else AList.update k v kvs)"

text \<open>
  \<open>o[k].k2 = v\<close>, right after \<open>o[k]\<close> was assigned an object: that object is changed where
  it is. When it is not an own property of \<open>o\<close> (it is the prototype of \<open>o\<close>, after an
  assignment to \<open>__proto__\<close>), the own properties of \<open>o\<close> stay as they are.
\<close>

definition obj_set_in ::
  "(string \<times> jsval) list \<Rightarrow> string \<Rightarrow> string \<Rightarrow> jsval \<Rightarrow> (string \<times> jsval) list" where
  "obj_set_in kvs k k2 v =
     (case map_of kvs k of
        Some (JObj inner) \<Rightarrow> AList.update k (JObj (obj_set inner k2 v)) kvs
      | _ \<Rightarrow> kvs)"

subsection \<open>Printing\<close>

definition digit_char :: "nat \<Rightarrow> char" where
  "digit_char n = ''0123456789'' ! (n mod 10)"

fun show_nat :: "nat \<Rightarrow> string" where
  "show_nat n = (if n < 10 then [digit_char n] else show_nat (n div 10) @ [digit_char n])"

declare show_nat.simps [simp del]

definition show_int :: "int \<Rightarrow> string" where
  "show_int i = (if i < 0 then CHR ''-'' # show_nat (nat (- i)) else show_nat (nat i))"

fun join :: "string \<Rightarrow> string list \<Rightarrow> string" where
  "join sep [] = []"
| "join sep [x] = x"
| "join sep (x # y # ys) = x @ sep @ join sep (y # ys)"

text \<open>
  \<open>String(v)\<close>, which a template literal applies to each value it interpolates. Integers
  print in decimal (JavaScript switches to exponent notation from the 22nd digit on, which no
  status or error code reaches).
\<close>

fun toString :: "jsval \<Rightarrow> string" where
  "toString JUndefined = ''undefined''"
| "toString JNull = ''null''"
| "toString (JBool b) = (if b then ''true'' else ''false'')"
| "toString (JNum (Finite n)) = show_int n"
| "toString (JNum NaN) = ''NaN''"
| "toString (JStr s) = s"
| "toString (JArr xs) = join '','' (map (\<lambda>x. if nullish x then [] else toString x) xs)"
| "toString (JObj kvs) = ''[object Object]''"

fun error_toString :: "error \<Rightarrow> string" where
  "error_toString (Error m) = ''Error: '' @ m"
| "error_toString TypeError = ''TypeError''"
| "error_toString (AxiosError m r) = ''AxiosError: '' @ m"

subsection \<open>Spreading\<close>

text \<open>
  The spread \<open>{...v}\<close> into an object under construction copies the own properties of
  \<open>v\<close>: the members of an object, the elements of an array and the characters of a string
  under their indices, nothing for any other value. It defines each as an own property,
  whatever its name.
\<close>

definition own_properties :: "jsval \<Rightarrow> (string \<times> jsval) list" where
  "own_properties v =
     (case v of
        JObj ps \<Rightarrow> ps
      | JArr xs \<Rightarrow> zip (map show_nat [0..<length xs]) xs
      | JStr s \<Rightarrow> zip (map show_nat [0..<length s]) (map (\<lambda>c. JStr [c]) s)
      | _ \<Rightarrow> [])"

definition spread_into :: "(string \<times> jsval) list \<Rightarrow> jsval \<Rightarrow> (string \<times> jsval) list" where
  "spread_into kvs v = foldl (\<lambda>acc (k, x). AList.update k x acc) kvs (own_properties v)"

section \<open>Strings\<close>

text \<open>
  JavaScript strings are modelled by \<^typ>\<open>string\<close>. The string operations used by
  \<open>WhatsAppClient.formatPhoneNumber\<close> (client.ts, lines 461-469) are
  \<open>startsWith\<close>, \<open>substring\<close> with one argument and \<open>replace(/\D/g, '')\<close>.
\<close>

definition startsWith :: "string \<Rightarrow> string \<Rightarrow> bool" where
  "startsWith s p = (take (length p) s = p)"

definition substring :: "string \<Rightarrow> nat \<Rightarrow> string" where
  "substring s n = drop n s"

definition is_digit :: "char \<Rightarrow> bool" where
  "is_digit c = (c \<in> set ''0123456789'')"

definition replace_non_digits :: "string \<Rightarrow> string" where
  "replace_non_digits s = filter is_digit s"

text \<open>\<open>s.replace(pat, rep)\<close> with a string pattern replaces the first occurrence only.\<close>

fun replace_first :: "string \<Rightarrow> string \<Rightarrow> string \<Rightarrow> string" where
  "replace_first [] pat rep = (if pat = [] then rep else [])"
| "replace_first (c # cs) pat rep =
     (if startsWith (c # cs) pat then rep @ drop (length pat) (c # cs)
      else c # replace_first cs pat rep)"

text \<open>\<open>toLowerCase\<close>, on the letters A to Z.\<close>

definition lower_char :: "char \<Rightarrow> char" where
  "lower_char c =
     (case map_of (zip ''ABCDEFGHIJKLMNOPQRSTUVWXYZ'' ''abcdefghijklmnopqrstuvwxyz'') c of
        None \<Rightarrow> c | Some l \<Rightarrow> l)"

definition toLowerCase :: "string \<Rightarrow> string" where
  "toLowerCase s = map lower_char s"

section \<open>The API client (client.ts)\<close>

subsection \<open>The world outside\<close>

text \<open>
  The HTTP transport, the file system, the process environment and \<open>Number(...)\<close> on
  strings are not part of the repository. They are parameters of the model. The vendor's
  answer may depend on every request made so far; the list of requests made is threaded
  through the operations, so that "no network request" is a statement about that list.
\<close>

datatype http_method = GET | POST | PATCH

datatype form_value = Text string | FileStream jsval

datatype body = NoBody | Json jsval | Form "(string \<times> form_value) list"

record request =
  req_method :: http_method
  req_url :: string
  req_body :: body

record env =
  respond :: "request list \<Rightarrow> request \<Rightarrow> error + jsval"
  existsSync :: "string \<Rightarrow> bool"
  process_env :: "string \<rightharpoonup> string"
  Number :: "string \<Rightarrow> number"

subsection \<open>Configuration and construction (lines 34-72)\<close>

record WhatsAppConfig =
  apiVersion :: "string option"
  apiToken :: "string option"
  phoneNumberId :: "string option"
  businessAccountId :: "string option"
  cacheMessageSeconds :: "number option"
  cacheContactSeconds :: "number option"
  requestTimeout :: "number option"

record AxiosInstance =
  baseURL :: string
  timeout :: "number option"
  authorization :: string

record cache_entry =
  entry_data :: jsval
  timestamp :: int

record WhatsAppClient =
  apiInstance :: AxiosInstance
  config :: WhatsAppConfig
  messageCache :: "string \<rightharpoonup> jsval"
  contactCache :: "string \<rightharpoonup> cache_entry"

text \<open>\<open>a || b\<close> on optional strings and optional numbers.\<close>

definition truthy_str :: "string option \<Rightarrow> bool" where
  "truthy_str a = (case a of None \<Rightarrow> False | Some s \<Rightarrow> s \<noteq> [])"

definition or_str :: "string option \<Rightarrow> string option \<Rightarrow> string option" where
  "or_str a b = (if truthy_str a then a else b)"

definition truthy_num :: "number option \<Rightarrow> bool" where
  "truthy_num a = (case a of Some (Finite n) \<Rightarrow> n \<noteq> 0 | _ \<Rightarrow> False)"

definition or_num :: "number option \<Rightarrow> number option \<Rightarrow> number option" where
  "or_num a b = (if truthy_num a then a else b)"

text \<open>\<open>config?.f\<close> for an optional configuration.\<close>

definition opt_field :: "WhatsAppConfig option \<Rightarrow> (WhatsAppConfig \<Rightarrow> 'a option) \<Rightarrow> 'a option" where
  "opt_field cfg f = (case cfg of None \<Rightarrow> None | Some c \<Rightarrow> f c)"

definition env_number :: "env \<Rightarrow> string \<Rightarrow> string \<Rightarrow> number option" where
  "env_number e var dflt =
     Some (Number e (case process_env e var of
                       None \<Rightarrow> dflt
                     | Some s \<Rightarrow> if s \<noteq> [] then s else dflt))"

definition resolve_config :: "env \<Rightarrow> WhatsAppConfig option \<Rightarrow> WhatsAppConfig" where
  "resolve_config e cfg =
     \<lparr> apiVersion =
         or_str (or_str (opt_field cfg apiVersion) (process_env e ''WHATSAPP_API_VERSION''))
           (Some ''v17.0''),
       apiToken = or_str (opt_field cfg apiToken) (process_env e ''WHATSAPP_API_TOKEN''),
       phoneNumberId =
         or_str (opt_field cfg phoneNumberId) (process_env e ''WHATSAPP_PHONE_NUMBER_ID''),
       businessAccountId =
         or_str (opt_field cfg businessAccountId) (process_env e ''WHATSAPP_BUSINESS_ACCOUNT_ID''),
       cacheMessageSeconds =
         or_num (opt_field cfg cacheMessageSeconds) (env_number e ''CACHE_MESSAGE_SECONDS'' ''300''),
       cacheContactSeconds =
         or_num (opt_field cfg cacheContactSeconds) (env_number e ''CACHE_CONTACT_SECONDS'' ''3600''),
       requestTimeout =
         or_num (opt_field cfg requestTimeout) (env_number e ''DEFAULT_REQUEST_TIMEOUT'' ''30000'') \<rparr>"

definition str_of :: "string option \<Rightarrow> string" where
  "str_of a = (case a of None \<Rightarrow> ''undefined'' | Some s \<Rightarrow> s)"

definition new_WhatsAppClient :: "env \<Rightarrow> WhatsAppConfig option \<Rightarrow> error + WhatsAppClient" where
  "new_WhatsAppClient e cfg =
     (let c = resolve_config e cfg in
      if \<not> truthy_str (apiToken c) then Inl (Error ''WhatsApp API token is required'')
      else if \<not> truthy_str (phoneNumberId c) then
        Inl (Error ''WhatsApp phone number ID is required'')
      else Inr \<lparr> apiInstance =
                  \<lparr> baseURL = ''https://graph.facebook.com/'' @ str_of (apiVersion c),
                    timeout = requestTimeout c,
                    authorization = ''Bearer '' @ str_of (apiToken c) \<rparr>,
                config = c,
                messageCache = Map.empty,
                contactCache = Map.empty \<rparr>)"

definition isConfigured :: "WhatsAppClient \<Rightarrow> bool" where
  "isConfigured c = (truthy_str (apiToken (config c)) \<and> truthy_str (phoneNumberId (config c)))"

subsection \<open>Phone numbers (lines 461-469)\<close>

definition formatPhoneNumber :: "string \<Rightarrow> string" where
  "formatPhoneNumber phoneNumber =
     (if startsWith phoneNumber ''+'' then substring phoneNumber 1
      else replace_non_digits phoneNumber)"

text \<open>
  The call \<open>this.formatPhoneNumber(v)\<close> on a run-time value: a value that is not a string
  has no \<open>startsWith\<close> method, and the call throws.
\<close>

definition call_formatPhoneNumber :: "jsval \<Rightarrow> error + string" where
  "call_formatPhoneNumber v = (case v of JStr s \<Rightarrow> Inr (formatPhoneNumber s) | _ \<Rightarrow> Inl TypeError)"

definition call_toLowerCase :: "jsval \<Rightarrow> error + string" where
  "call_toLowerCase v = (case v of JStr s \<Rightarrow> Inr (toLowerCase s) | _ \<Rightarrow> Inl TypeError)"

subsection \<open>Errors of the API (lines 476-505)\<close>

text \<open>
  \<open>handleApiError\<close> always throws; the model returns what it throws. Its writes to the
  console are not modelled.
\<close>

definition handleApiError :: "string \<Rightarrow> error \<Rightarrow> error" where
  "handleApiError message err =
     (case err of
        AxiosError m (Some (Response statusCode responseData)) \<Rightarrow>
          (let errorMsg = message @ '': HTTP '' @ show_int statusCode in
           if truthy responseData \<and> truthy (field responseData ''error'') then
             (let verr = field responseData ''error'';
                  code = field verr ''code'';
                  apiMessage = field verr ''message'';
                  error_subcode = field verr ''error_subcode'';
                  error_user_title = field verr ''error_user_title'';
                  error_user_msg = field verr ''error_user_msg'';
                  errorMsg1 = errorMsg @ '' - '' @ toString (js_or code (JStr [])) @ '': '' @
                    toString (js_or apiMessage (JStr []));
                  errorMsg2 =
                    (if truthy error_subcode
                     then errorMsg1 @ '' (subcode: '' @ toString error_subcode @ '')''
                     else errorMsg1);
                  errorMsg3 =
                    (if truthy error_user_title \<or> truthy error_user_msg
                     then errorMsg2 @ '' - '' @ toString (js_or error_user_title (JStr [])) @
                       '': '' @ toString (js_or error_user_msg (JStr []))
                     else errorMsg2)
              in Error errorMsg3)
           else Error errorMsg)
      | _ \<Rightarrow> err)"

text \<open>\<open>try { ... } catch (error) { this.handleApiError(message, error); throw error; }\<close>\<close>

definition try_catch :: "string \<Rightarrow> (error + 'a) \<times> 's \<Rightarrow> (error + 'a) \<times> 's" where
  "try_catch message r =
     (case r of (Inl e, s) \<Rightarrow> (Inl (handleApiError message e), s) | (Inr v, s) \<Rightarrow> (Inr v, s))"

subsection \<open>Requests\<close>

definition http :: "env \<Rightarrow> request \<Rightarrow> request list \<Rightarrow> (error + jsval) \<times> request list" where
  "http e r net = (respond e net r, net @ [r])"

definition endpoint :: "WhatsAppClient \<Rightarrow> string \<Rightarrow> string" where
  "endpoint c path =
     baseURL (apiInstance c) @ ''/'' @ str_of (phoneNumberId (config c)) @ ''/'' @ path"

text \<open>\<open>v > 0\<close> converts \<open>v\<close> to a number first; a comparison with NaN is false.\<close>

definition ToNumber :: "env \<Rightarrow> jsval \<Rightarrow> number" where
  "ToNumber e v =
     (case v of
        JUndefined \<Rightarrow> NaN
      | JNull \<Rightarrow> Finite 0
      | JBool b \<Rightarrow> Finite (if b then 1 else 0)
      | JNum n \<Rightarrow> n
      | JStr s \<Rightarrow> Number e s
      | _ \<Rightarrow> Number e (toString v))"

definition js_gt_zero :: "env \<Rightarrow> jsval \<Rightarrow> bool" where
  "js_gt_zero e v = (case ToNumber e v of Finite n \<Rightarrow> 0 < n | NaN \<Rightarrow> False)"

text \<open>
  The five send operations end with the same lines (97-101, 140-144, 199-203, 248-252,
  294-298): the id of the first message of the response, or the empty string.
\<close>

definition response_message_id :: "env \<Rightarrow> jsval \<Rightarrow> error + jsval" where
  "response_message_id e rdata =
     (if truthy rdata \<and> truthy (field rdata ''messages'') \<and>
         js_gt_zero e (field (field rdata ''messages'') ''length'')
      then and_then (index0 (field rdata ''messages'')) (\<lambda>m. get_prop m ''id'')
      else Inr (JStr []))"

definition post_message ::
  "env \<Rightarrow> WhatsAppClient \<Rightarrow> jsval \<Rightarrow> request list \<Rightarrow> (error + jsval) \<times> request list" where
  "post_message e c payload net =
     (case http e \<lparr> req_method = POST, req_url = endpoint c ''messages'',
                     req_body = Json payload \<rparr> net of
        (Inl err, net') \<Rightarrow> (Inl err, net')
      | (Inr rdata, net') \<Rightarrow> (response_message_id e rdata, net'))"

subsection \<open>Sending (lines 80-303)\<close>

definition sendMessage ::
  "env \<Rightarrow> WhatsAppClient \<Rightarrow> jsval \<Rightarrow> jsval \<Rightarrow> request list \<Rightarrow> (error + jsval) \<times> request list" where
  "sendMessage e c to message net =
     (case call_formatPhoneNumber to of
        Inl err \<Rightarrow> (Inl err, net)
      | Inr formattedNumber \<Rightarrow>
          try_catch ''Error sending message''
            (post_message e c
               (JObj [(''messaging_product'', JStr ''whatsapp''),
                      (''recipient_type'', JStr ''individual''),
                      (''to'', JStr formattedNumber),
                      (''type'', JStr ''text''),
                      (''text'', JObj [(''body'', message)])]) net))"

definition sendTemplateMessage ::
  "env \<Rightarrow> WhatsAppClient \<Rightarrow> jsval \<Rightarrow> request list \<Rightarrow> (error + jsval) \<times> request list" where
  "sendTemplateMessage e c options net =
     (case and_then (get_prop options ''to'') call_formatPhoneNumber of
        Inl err \<Rightarrow> (Inl err, net)
      | Inr formattedNumber \<Rightarrow>
          try_catch ''Error sending template message''
            (let payload =
                   [(''messaging_product'', JStr ''whatsapp''),
                    (''recipient_type'', JStr ''individual''),
                    (''to'', JStr formattedNumber),
                    (''type'', JStr ''template''),
                    (''template'',
                       JObj [(''name'', field options ''templateName''),
                             (''language'', JObj [(''code'', field options ''language'')])])];
                 components = field options ''components'';
                 payload1 =
                   (if truthy components \<and> js_gt_zero e (field components ''length'')
                    then obj_set_in payload ''template'' ''components'' components
                    else payload)
             in post_message e c (JObj payload1) net))"

definition uploadMedia ::
  "env \<Rightarrow> WhatsAppClient \<Rightarrow> jsval \<Rightarrow> request list \<Rightarrow> (error + jsval) \<times> request list" where
  "uploadMedia e c filePath net =
     (if \<not> (case filePath of JStr p \<Rightarrow> existsSync e p | _ \<Rightarrow> False)
      then (Inl (Error (''File not found: '' @ toString filePath)), net)
      else
        try_catch ''Error uploading media''
          (case http e \<lparr> req_method = POST, req_url = endpoint c ''media'',
                          req_body = Form [(''messaging_product'', Text ''whatsapp''),
                                           (''file'', FileStream filePath)] \<rparr> net of
             (Inl err, net') \<Rightarrow> (Inl err, net')
           | (Inr rdata, net') \<Rightarrow>
               (if truthy rdata \<and> truthy (field rdata ''id'') then Inr (field rdata ''id'')
                else Inl (Error ''Failed to upload media: No media ID received''), net')))"

definition sendMedia ::
  "env \<Rightarrow> WhatsAppClient \<Rightarrow> jsval \<Rightarrow> request list \<Rightarrow> (error + jsval) \<times> request list" where
  "sendMedia e c options net =
     (case and_then (get_prop options ''to'') call_formatPhoneNumber of
        Inl err \<Rightarrow> (Inl err, net)
      | Inr formattedNumber \<Rightarrow>
     (case call_toLowerCase (field options ''type'') of
        Inl err \<Rightarrow> (Inl err, net)
      | Inr mediaType \<Rightarrow>
          try_catch ''Error sending media message''
            (case (if truthy (field options ''filePath'')
                   then uploadMedia e c (field options ''filePath'') net
                   else (Inr JUndefined, net)) of
               (Inl err, net1) \<Rightarrow> (Inl err, net1)
             | (Inr mediaId, net1) \<Rightarrow>
                 (let payload =
                        [(''messaging_product'', JStr ''whatsapp''),
                         (''recipient_type'', JStr ''individual''),
                         (''to'', JStr formattedNumber),
                         (''type'', JStr mediaType)]
                  in case (if truthy mediaId
                           then Inr (obj_set payload mediaType (JObj [(''id'', mediaId)]))
                           else if truthy (field options ''url'')
                           then Inr (obj_set payload mediaType
                                       (JObj [(''link'', field options ''url'')]))
                           else Inl (Error ''Either filePath or url must be provided'')) of
                       Inl err \<Rightarrow> (Inl err, net1)
                     | Inr payload1 \<Rightarrow>
                         (let payload2 =
                                (if truthy (field options ''caption'')
                                 then obj_set_in payload1 mediaType ''caption''
                                        (field options ''caption'')
                                 else payload1);
                              payload3 =
                                (if mediaType = ''document'' \<and> truthy (field options ''filename'')
                                 then obj_set_in payload2 mediaType ''filename''
                                        (field options ''filename'')
                                 else payload2)
                          in post_message e c (JObj payload3) net1)))))"

definition sendInteractiveMessage ::
  "env \<Rightarrow> WhatsAppClient \<Rightarrow> jsval \<Rightarrow> request list \<Rightarrow> (error + jsval) \<times> request list" where
  "sendInteractiveMessage e c options net =
     (case and_then (get_prop options ''to'') call_formatPhoneNumber of
        Inl err \<Rightarrow> (Inl err, net)
      | Inr formattedNumber \<Rightarrow>
          try_catch ''Error sending interactive message''
            (let payload =
                   [(''messaging_product'', JStr ''whatsapp''),
                    (''recipient_type'', JStr ''individual''),
                    (''to'', JStr formattedNumber),
                    (''type'', JStr ''interactive''),
                    (''interactive'',
                       JObj [(''type'', field options ''type''),
                             (''body'', field options ''body'')])];
                 payload1 =
                   (if truthy (field options ''header'')
                    then obj_set_in payload ''interactive'' ''header'' (field options ''header'')
                    else payload);
                 payload2 =
                   (if truthy (field options ''footer'')
                    then obj_set_in payload1 ''interactive'' ''footer'' (field options ''footer'')
                    else payload1);
                 payload3 = obj_set_in payload2 ''interactive'' ''action'' (field options ''action'')
             in post_message e c (JObj payload3) net))"

definition sendLocation ::
  "env \<Rightarrow> WhatsAppClient \<Rightarrow> jsval \<Rightarrow> request list \<Rightarrow> (error + jsval) \<times> request list" where
  "sendLocation e c options net =
     (case and_then (get_prop options ''to'') call_formatPhoneNumber of
        Inl err \<Rightarrow> (Inl err, net)
      | Inr formattedNumber \<Rightarrow>
          try_catch ''Error sending location message''
            (let payload =
                   [(''messaging_product'', JStr ''whatsapp''),
                    (''recipient_type'', JStr ''individual''),
                    (''to'', JStr formattedNumber),
                    (''type'', JStr ''location''),
                    (''location'',
                       JObj [(''latitude'', field options ''latitude''),
                             (''longitude'', field options ''longitude'')])];
                 payload1 =
                   (if truthy (field options ''name'')
                    then obj_set_in payload ''location'' ''name'' (field options ''name'')
                    else payload);
                 payload2 =
                   (if truthy (field options ''address'')
                    then obj_set_in payload1 ''location'' ''address'' (field options ''address'')
                    else payload1)
             in post_message e c (JObj payload2) net))"

subsection \<open>Read receipts, profile and media (lines 310-421)\<close>

definition markMessageAsRead ::
  "env \<Rightarrow> WhatsAppClient \<Rightarrow> jsval \<Rightarrow> request list \<Rightarrow> (error + jsval) \<times> request list" where
  "markMessageAsRead e c messageId net =
     try_catch ''Error marking message as read''
       (case http e \<lparr> req_method = POST, req_url = endpoint c ''messages'',
                       req_body = Json (JObj [(''messaging_product'', JStr ''whatsapp''),
                                              (''status'', JStr ''read''),
                                              (''message_id'', messageId)]) \<rparr> net of
          (Inl err, net') \<Rightarrow> (Inl err, net')
        | (Inr rdata, net') \<Rightarrow> (Inr (JBool True), net'))"

definition getBusinessProfile ::
  "env \<Rightarrow> WhatsAppClient \<Rightarrow> request list \<Rightarrow> (error + jsval) \<times> request list" where
  "getBusinessProfile e c net =
     try_catch ''Error getting business profile''
       (case http e \<lparr> req_method = GET, req_url = endpoint c ''whatsapp_business_profile'',
                       req_body = NoBody \<rparr> net of
          (Inl err, net') \<Rightarrow> (Inl err, net')
        | (Inr rdata, net') \<Rightarrow>
            (and_then (and_then (get_prop rdata ''data'') index0) (\<lambda>v. Inr (js_or v (JObj []))),
             net'))"

definition updateBusinessProfile ::
  "env \<Rightarrow> WhatsAppClient \<Rightarrow> jsval \<Rightarrow> request list \<Rightarrow> (error + jsval) \<times> request list" where
  "updateBusinessProfile e c profileData net =
     try_catch ''Error updating business profile''
       (case http e \<lparr> req_method = PATCH, req_url = endpoint c ''whatsapp_business_profile'',
                       req_body = Json (JObj (spread_into
                         [(''messaging_product'', JStr ''whatsapp'')] profileData)) \<rparr> net of
          (Inl err, net') \<Rightarrow> (Inl err, net')
        | (Inr rdata, net') \<Rightarrow> (Inr (JBool True), net'))"

definition getMediaUrl ::
  "env \<Rightarrow> WhatsAppClient \<Rightarrow> jsval \<Rightarrow> request list \<Rightarrow> (error + jsval) \<times> request list" where
  "getMediaUrl e c mediaId net =
     try_catch ''Error getting media URL''
       (case http e \<lparr> req_method = GET,
                       req_url = baseURL (apiInstance c) @ ''/'' @ toString mediaId,
                       req_body = NoBody \<rparr> net of
          (Inl err, net') \<Rightarrow> (Inl err, net')
        | (Inr rdata, net') \<Rightarrow>
            (if truthy rdata \<and> truthy (field rdata ''url'') then Inr (field rdata ''url'')
             else Inl (Error ''Failed to get media URL''), net'))"

subsection \<open>Contacts (lines 428-454)\<close>

text \<open>
  \<open>getContactInfo\<close> reads the clock twice: \<open>now1\<close> when it checks the age of the cached
  entry, \<open>now2\<close> when it stamps the new one. It makes no request.
\<close>

definition getContactInfo ::
  "WhatsAppClient \<Rightarrow> jsval \<Rightarrow> int \<Rightarrow> int \<Rightarrow> (error + jsval) \<times> WhatsAppClient" where
  "getContactInfo c phoneNumber now1 now2 =
     (case call_formatPhoneNumber phoneNumber of
        Inl err \<Rightarrow> (Inl err, c)
      | Inr formattedNumber \<Rightarrow>
          (let cacheKey = ''contact_'' @ formattedNumber;
               cachedContact = contactCache c cacheKey;
               hit =
                 (case cachedContact of
                    None \<Rightarrow> None
                  | Some entry \<Rightarrow>
                      (case cacheContactSeconds (config c) of
                         Some (Finite secs) \<Rightarrow>
                           if now1 - timestamp entry < secs * 1000
                           then Some (entry_data entry) else None
                       | _ \<Rightarrow> None))
           in case hit of
                Some cached \<Rightarrow> (Inr cached, c)
              | None \<Rightarrow>
                  (let contact = JObj [(''id'', JStr formattedNumber),
                                       (''name'', JUndefined),
                                       (''isBusiness'', JUndefined),
                                       (''profilePictureUrl'', JUndefined)]
                   in (Inr contact,
                       c\<lparr> contactCache :=
                            (contactCache c)(cacheKey \<mapsto>
                               \<lparr> entry_data = contact, timestamp = now2 \<rparr>) \<rparr>))))"

subsection \<open>Sequences of client operations\<close>

datatype client_op =
    SendMessage jsval jsval
  | SendTemplateMessage jsval
  | SendMedia jsval
  | SendInteractiveMessage jsval
  | SendLocation jsval
  | MarkMessageAsRead jsval
  | GetBusinessProfile
  | UpdateBusinessProfile jsval
  | UploadMedia jsval
  | GetMediaUrl jsval
  | GetContactInfo jsval int int
  | IsConfigured

fun client_call ::
  "env \<Rightarrow> client_op \<Rightarrow> WhatsAppClient \<times> request list \<Rightarrow>
     (error + jsval) \<times> WhatsAppClient \<times> request list" where
  "client_call e (SendMessage to message) (c, net) =
     (case sendMessage e c to message net of (r, net') \<Rightarrow> (r, c, net'))"
| "client_call e (SendTemplateMessage options) (c, net) =
     (case sendTemplateMessage e c options net of (r, net') \<Rightarrow> (r, c, net'))"
| "client_call e (SendMedia options) (c, net) =
     (case sendMedia e c options net of (r, net') \<Rightarrow> (r, c, net'))"
| "client_call e (SendInteractiveMessage options) (c, net) =
     (case sendInteractiveMessage e c options net of (r, net') \<Rightarrow> (r, c, net'))"
| "client_call e (SendLocation options) (c, net) =
     (case sendLocation e c options net of (r, net') \<Rightarrow> (r, c, net'))"
| "client_call e (MarkMessageAsRead messageId) (c, net) =
     (case markMessageAsRead e c messageId net of (r, net') \<Rightarrow> (r, c, net'))"
| "client_call e GetBusinessProfile (c, net) =
     (case getBusinessProfile e c net of (r, net') \<Rightarrow> (r, c, net'))"
| "client_call e (UpdateBusinessProfile profileData) (c, net) =
     (case updateBusinessProfile e c profileData net of (r, net') \<Rightarrow> (r, c, net'))"
| "client_call e (UploadMedia filePath) (c, net) =
     (case uploadMedia e c filePath net of (r, net') \<Rightarrow> (r, c, net'))"
| "client_call e (GetMediaUrl mediaId) (c, net) =
     (case getMediaUrl e c mediaId net of (r, net') \<Rightarrow> (r, c, net'))"
| "client_call e (GetContactInfo phoneNumber now1 now2) (c, net) =
     (case getContactInfo c phoneNumber now1 now2 of (r, c') \<Rightarrow> (r, c', net))"
| "client_call e IsConfigured (c, net) = (Inr (JBool (isConfigured c)), c, net)"

fun client_calls ::
  "env \<Rightarrow> client_op list \<Rightarrow> WhatsAppClient \<times> request list \<Rightarrow> WhatsAppClient \<times> request list" where
  "client_calls e [] s = s"
| "client_calls e (op # ops) s = client_calls e ops (snd (client_call e op s))"

section \<open>The plugin adapter (plugin.ts)\<close>

subsection \<open>Tools and manifests\<close>

text \<open>
  A manifest is an entry of the static catalog: its name, its description, its properties
  (name, type, description) and the list of its required parameters, which two manifests
  do not have.
\<close>

record manifest =
  m_name :: string
  m_description :: string
  m_properties :: "(string \<times> string \<times> string) list"
  m_required :: "string list option"

record ToolParameterSchema =
  schema_name :: string
  schema_type :: string
  schema_description :: string
  schema_required :: bool

text \<open>
  The \<open>execute\<close> function of a tool that the plugin builds closes over the plugin and the
  manifest: it is represented by the manifest's name and run by \<open>execute\<close> below. The
  \<open>execute\<close> function of a tool registered from outside is a function of the parameters.
\<close>

datatype execute_fn =
    Builtin string
  | Custom "(string \<times> jsval) list \<Rightarrow> error + jsval"

record Plugin =
  tool_name :: string
  tool_description :: string
  tool_parameters :: "ToolParameterSchema list"
  tool_execute :: execute_fn

text \<open>
  The tool map is a JavaScript \<open>Map\<close>: an association list in insertion order, where
  \<open>set\<close> replaces the value of a key in place or appends a new key
  (\<^const>\<open>AList.update\<close>) and \<open>delete\<close> removes the key (\<^const>\<open>AList.delete\<close>).
  \<open>config_tools\<close> is the field \<open>config.tools\<close>, the list the plugin exposes.
\<close>

record WhatsAppPlugin =
  client :: "WhatsAppClient option"
  whatsAppConfig :: WhatsAppConfig
  tools :: "(string \<times> Plugin) list"
  config_tools :: "Plugin list"

definition getChatManifests :: "manifest list" where
  \<open>getChatManifests =
     [\<lparr> m_name = ''whatsapp_send_message'',
        m_description = ''Send a WhatsApp text message to a contact'',
        m_properties =
         [(''to'', ''string'',
             ''Phone number of the recipient with country code (e.g., "+1234567890")''),
          (''message'', ''string'',
             ''Text message to send'')],
        m_required = Some [''to'', ''message''] \<rparr>,
      \<lparr> m_name = ''whatsapp_send_template'',
        m_description = ''Send a template message to a contact'',
        m_properties =
         [(''to'', ''string'',
             ''Phone number of the recipient with country code (e.g., "+1234567890")''),
          (''templateName'', ''string'',
             ''Name of the template to use''),
          (''language'', ''string'',
             ''Language code of the template (e.g., "en_US")''),
          (''components'', ''array'',
             ''Template components containing parameters'')],
        m_required = Some [''to'', ''templateName'', ''language''] \<rparr>,
      \<lparr> m_name = ''whatsapp_send_media'',
        m_description = ''Send a media message (image, document, etc.) to a contact'',
        m_properties =
         [(''to'', ''string'',
             ''Phone number of the recipient with country code (e.g., "+1234567890")''),
          (''type'', ''string'',
             ''Type of media (image, document, audio, video, sticker)''),
          (''url'', ''string'',
             ''URL to the media file''),
          (''filePath'', ''string'',
             ''Path to the media file (alternative to URL)''),
          (''caption'', ''string'',
             ''Optional caption for the media''),
          (''filename'', ''string'',
             ''Filename for document type media'')],
        m_required = Some [''to'', ''type''] \<rparr>,
      \<lparr> m_name = ''whatsapp_send_interactive'',
        m_description = ''Send an interactive message with buttons or lists'',
        m_properties =
         [(''to'', ''string'',
             ''Phone number of the recipient with country code (e.g., "+1234567890")''),
          (''type'', ''string'',
             ''Type of interactive message (button, list, product, product_list)''),
          (''body'', ''object'',
             ''Body content of the message containing text''),
          (''header'', ''object'',
             ''Optional header for the message''),
          (''footer'', ''object'',
             ''Optional footer for the message''),
          (''action'', ''object'',
             ''Action content for the interactive message (buttons, sections, etc.)'')],
        m_required = Some [''to'', ''type'', ''body'', ''action''] \<rparr>,
      \<lparr> m_name = ''whatsapp_send_location'',
        m_description = ''Send a location message'',
        m_properties =
         [(''to'', ''string'',
             ''Phone number of the recipient with country code (e.g., "+1234567890")''),
          (''latitude'', ''number'',
             ''Latitude coordinate of the location''),
          (''longitude'', ''number'',
             ''Longitude coordinate of the location''),
          (''name'', ''string'',
             ''Optional name of the location''),
          (''address'', ''string'',
             ''Optional address of the location'')],
        m_required = Some [''to'', ''latitude'', ''longitude''] \<rparr>,
      \<lparr> m_name = ''whatsapp_mark_as_read'',
        m_description = ''Mark a message as read'',
        m_properties =
         [(''messageId'', ''string'',
             ''ID of the message to mark as read'')],
        m_required = Some [''messageId''] \<rparr>,
      \<lparr> m_name = ''whatsapp_get_contact_info'',
        m_description = ''Get basic information about a contact'',
        m_properties =
         [(''phoneNumber'', ''string'',
             ''Phone number with country code (e.g., "+1234567890")'')],
        m_required = Some [''phoneNumber''] \<rparr>,
      \<lparr> m_name = ''whatsapp_get_business_profile'',
        m_description = ''Get information about your WhatsApp Business profile'',
        m_properties =
         [],
        m_required = None \<rparr>,
      \<lparr> m_name = ''whatsapp_update_business_profile'',
        m_description = ''Update your WhatsApp Business profile information'',
        m_properties =
         [(''about'', ''string'',
             ''About text for the business profile''),
          (''address'', ''string'',
             ''Business address''),
          (''description'', ''string'',
             ''Business description''),
          (''email'', ''string'',
             ''Business email''),
          (''websites'', ''array'',
             ''Business websites''),
          (''vertical'', ''string'',
             ''Business category/vertical'')],
        m_required = None \<rparr>]\<close>

definition convertParameters :: "manifest \<Rightarrow> ToolParameterSchema list" where
  "convertParameters m =
     map (\<lambda>(pname, ptype, pdescription).
            \<lparr> schema_name = pname,
              schema_type =
                (if ptype \<in> set [''string'', ''number'', ''boolean'', ''object'', ''array'']
                 then ptype else ''string''),
              schema_description = (if pdescription \<noteq> [] then pdescription else []),
              schema_required =
                (case m_required m of None \<Rightarrow> False | Some rs \<Rightarrow> pname \<in> set rs) \<rparr>)
         (m_properties m)"

definition initializeTools :: "WhatsAppPlugin \<Rightarrow> WhatsAppPlugin" where
  "initializeTools p =
     (let tools' =
            foldl (\<lambda>ts m. AList.update (m_name m)
                             \<lparr> tool_name = m_name m,
                               tool_description = m_description m,
                               tool_parameters = convertParameters m,
                               tool_execute = Builtin (m_name m) \<rparr> ts)
                  (tools p) getChatManifests
      in p\<lparr> tools := tools', config_tools := map snd tools' \<rparr>)"

definition new_WhatsAppPlugin :: "env \<Rightarrow> WhatsAppConfig option \<Rightarrow> WhatsAppPlugin" where
  "new_WhatsAppPlugin e cfg =
     initializeTools
       \<lparr> client = None,
         whatsAppConfig =
           (case cfg of
              Some c \<Rightarrow> c
            | None \<Rightarrow>
                \<lparr> apiVersion = process_env e ''WHATSAPP_API_VERSION'',
                  apiToken = process_env e ''WHATSAPP_API_TOKEN'',
                  phoneNumberId = process_env e ''WHATSAPP_PHONE_NUMBER_ID'',
                  businessAccountId = process_env e ''WHATSAPP_BUSINESS_ACCOUNT_ID'',
                  cacheMessageSeconds = None,
                  cacheContactSeconds = None,
                  requestTimeout = None \<rparr>),
         tools = [],
         config_tools = [] \<rparr>"

text \<open>
  \<open>init\<close> (lines 52-73). The assignment to \<open>this.client\<close> happens only when the
  constructor returns. The log lines are not modelled.
\<close>

definition init :: "env \<Rightarrow> WhatsAppPlugin \<Rightarrow> (error + unit) \<times> WhatsAppPlugin" where
  "init e p =
     (case new_WhatsAppClient e (Some (whatsAppConfig p)) of
        Inl err \<Rightarrow>
          (Inl (Error (''WhatsApp plugin initialization failed: '' @ error_toString err)), p)
      | Inr c \<Rightarrow>
          (let p1 = p\<lparr> client := Some c \<rparr> in
           if \<not> isConfigured c then
             (Inl (Error (''WhatsApp plugin initialization failed: '' @ error_toString (Error
                ''WhatsApp client is not properly configured. Check your API token and phone number ID.''))),
              p1)
           else (Inr (), initializeTools p1)))"

subsection \<open>Tool management (lines 415-488)\<close>

definition getTools :: "WhatsAppPlugin \<Rightarrow> Plugin list" where
  "getTools p = map snd (tools p)"

definition getTool :: "WhatsAppPlugin \<Rightarrow> string \<Rightarrow> Plugin option" where
  "getTool p n = map_of (tools p) n"

definition registerTool :: "Plugin \<Rightarrow> WhatsAppPlugin \<Rightarrow> WhatsAppPlugin" where
  "registerTool tool p = p\<lparr> tools := AList.update (tool_name tool) tool (tools p) \<rparr>"

definition removeTool :: "string \<Rightarrow> WhatsAppPlugin \<Rightarrow> bool \<times> WhatsAppPlugin" where
  "removeTool n p =
     (let result = (map_of (tools p) n \<noteq> None);
          tools' = AList.delete n (tools p)
      in (result, p\<lparr> tools := tools', config_tools := map snd tools' \<rparr>))"

definition hasTool :: "WhatsAppPlugin \<Rightarrow> string \<Rightarrow> bool" where
  "hasTool p n = (map_of (tools p) n \<noteq> None)"

definition getToolCount :: "WhatsAppPlugin \<Rightarrow> nat" where
  "getToolCount p = length (tools p)"

definition cleanupAll :: "WhatsAppPlugin \<Rightarrow> WhatsAppPlugin" where
  "cleanupAll p = p\<lparr> client := None \<rparr>"

definition getToolByFullName :: "WhatsAppPlugin \<Rightarrow> string \<Rightarrow> Plugin option" where
  "getToolByFullName p fullName = map_of (tools p) fullName"

subsection \<open>Implementation methods (lines 506-651)\<close>

text \<open>
  Each method takes the parameter record (the properties of the object \<open>params\<close>), the
  plugin's client and the requests made so far, and returns its result with the client
  and the requests afterwards. \<open>this.client!\<close> on a plugin without a client throws a
  TypeError when a method is called on it.
\<close>

type_synonym plugin_state = "WhatsAppClient option \<times> request list"

definition par :: "(string \<times> jsval) list \<Rightarrow> string \<Rightarrow> jsval" where
  "par params k = field (JObj params) k"

definition on_client ::
  "WhatsAppClient option \<Rightarrow> request list \<Rightarrow>
     (WhatsAppClient \<Rightarrow> (error + jsval) \<times> request list) \<Rightarrow> (jsval \<Rightarrow> jsval) \<Rightarrow>
     (error + jsval) \<times> plugin_state" where
  "on_client cl net call wrap =
     (case cl of
        None \<Rightarrow> (Inl TypeError, cl, net)
      | Some c \<Rightarrow>
          (case call c of
             (Inl err, net') \<Rightarrow> (Inl err, cl, net')
           | (Inr v, net') \<Rightarrow> (Inr (wrap v), cl, net')))"

definition success_messageId :: "jsval \<Rightarrow> jsval" where
  "success_messageId messageId = JObj [(''success'', JBool True), (''messageId'', messageId)]"

definition success_only :: "jsval \<Rightarrow> jsval" where
  "success_only success = JObj [(''success'', success)]"

definition plugin_sendMessage ::
  "env \<Rightarrow> (string \<times> jsval) list \<Rightarrow> plugin_state \<Rightarrow> (error + jsval) \<times> plugin_state" where
  "plugin_sendMessage e params s =
     (case s of (cl, net) \<Rightarrow>
        if \<not> truthy (par params ''to'') \<or> \<not> truthy (par params ''message'')
        then (Inl (Error ''Missing required parameters: to, message''), cl, net)
        else on_client cl net
               (\<lambda>c. sendMessage e c (par params ''to'') (par params ''message'') net)
               success_messageId)"

definition plugin_sendTemplateMessage ::
  "env \<Rightarrow> (string \<times> jsval) list \<Rightarrow> plugin_state \<Rightarrow> (error + jsval) \<times> plugin_state" where
  "plugin_sendTemplateMessage e params s =
     (case s of (cl, net) \<Rightarrow>
        if \<not> truthy (par params ''to'') \<or> \<not> truthy (par params ''templateName'') \<or>
           \<not> truthy (par params ''language'')
        then (Inl (Error ''Missing required parameters: to, templateName, language''), cl, net)
        else on_client cl net (\<lambda>c. sendTemplateMessage e c (JObj params) net)
               success_messageId)"

definition plugin_sendMedia ::
  "env \<Rightarrow> (string \<times> jsval) list \<Rightarrow> plugin_state \<Rightarrow> (error + jsval) \<times> plugin_state" where
  "plugin_sendMedia e params s =
     (case s of (cl, net) \<Rightarrow>
        if \<not> truthy (par params ''to'') \<or> \<not> truthy (par params ''type'') \<or>
           (\<not> truthy (par params ''url'') \<and> \<not> truthy (par params ''filePath''))
        then (Inl (Error ''Missing required parameters: to, type, (url or filePath)''), cl, net)
        else on_client cl net (\<lambda>c. sendMedia e c (JObj params) net) success_messageId)"

definition plugin_sendInteractiveMessage ::
  "env \<Rightarrow> (string \<times> jsval) list \<Rightarrow> plugin_state \<Rightarrow> (error + jsval) \<times> plugin_state" where
  "plugin_sendInteractiveMessage e params s =
     (case s of (cl, net) \<Rightarrow>
        if \<not> truthy (par params ''to'') \<or> \<not> truthy (par params ''type'') \<or>
           \<not> truthy (par params ''body'') \<or> \<not> truthy (par params ''action'')
        then (Inl (Error ''Missing required parameters: to, type, body, action''), cl, net)
        else on_client cl net (\<lambda>c. sendInteractiveMessage e c (JObj params) net)
               success_messageId)"

definition plugin_sendLocation ::
  "env \<Rightarrow> (string \<times> jsval) list \<Rightarrow> plugin_state \<Rightarrow> (error + jsval) \<times> plugin_state" where
  "plugin_sendLocation e params s =
     (case s of (cl, net) \<Rightarrow>
        if \<not> truthy (par params ''to'') \<or> par params ''latitude'' = JUndefined \<or>
           par params ''longitude'' = JUndefined
        then (Inl (Error ''Missing required parameters: to, latitude, longitude''), cl, net)
        else on_client cl net (\<lambda>c. sendLocation e c (JObj params) net) success_messageId)"

definition plugin_markAsRead ::
  "env \<Rightarrow> (string \<times> jsval) list \<Rightarrow> plugin_state \<Rightarrow> (error + jsval) \<times> plugin_state" where
  "plugin_markAsRead e params s =
     (case s of (cl, net) \<Rightarrow>
        if \<not> truthy (par params ''messageId'')
        then (Inl (Error ''Missing required parameter: messageId''), cl, net)
        else on_client cl net (\<lambda>c. markMessageAsRead e c (par params ''messageId'') net)
               success_only)"

definition plugin_getContactInfo ::
  "int \<times> int \<Rightarrow> (string \<times> jsval) list \<Rightarrow> plugin_state \<Rightarrow> (error + jsval) \<times> plugin_state" where
  "plugin_getContactInfo clock params s =
     (case s of (cl, net) \<Rightarrow>
        if \<not> truthy (par params ''phoneNumber'')
        then (Inl (Error ''Missing required parameter: phoneNumber''), cl, net)
        else (case cl of
                None \<Rightarrow> (Inl TypeError, cl, net)
              | Some c \<Rightarrow>
                  (case getContactInfo c (par params ''phoneNumber'') (fst clock) (snd clock) of
                     (r, c') \<Rightarrow> (r, Some c', net))))"

definition plugin_getBusinessProfile ::
  "env \<Rightarrow> plugin_state \<Rightarrow> (error + jsval) \<times> plugin_state" where
  "plugin_getBusinessProfile e s =
     (case s of (cl, net) \<Rightarrow> on_client cl net (\<lambda>c. getBusinessProfile e c net) (\<lambda>v. v))"

definition plugin_updateBusinessProfile ::
  "env \<Rightarrow> (string \<times> jsval) list \<Rightarrow> plugin_state \<Rightarrow> (error + jsval) \<times> plugin_state" where
  "plugin_updateBusinessProfile e params s =
     (case s of (cl, net) \<Rightarrow>
        on_client cl net (\<lambda>c. updateBusinessProfile e c (JObj params) net) success_only)"

subsection \<open>Running a tool (lines 95-154 and 459-465)\<close>

text \<open>
  The \<open>switch\<close> on the method name. The \<open>catch\<close> around it rethrows what it catches, since
  every value thrown here is an \<open>Error\<close>; the copy made when the result is the parameter
  object itself changes no value, and no method returns that object.
\<close>

definition run_method ::
  "env \<Rightarrow> int \<times> int \<Rightarrow> string \<Rightarrow> (string \<times> jsval) list \<Rightarrow> plugin_state \<Rightarrow>
     (error + jsval) \<times> plugin_state" where
  "run_method e clock methodName params s =
     (if methodName = ''send_message'' then plugin_sendMessage e params s
      else if methodName = ''send_template'' then plugin_sendTemplateMessage e params s
      else if methodName = ''send_media'' then plugin_sendMedia e params s
      else if methodName = ''send_interactive'' then plugin_sendInteractiveMessage e params s
      else if methodName = ''send_location'' then plugin_sendLocation e params s
      else if methodName = ''mark_as_read'' then plugin_markAsRead e params s
      else if methodName = ''get_contact_info'' then plugin_getContactInfo clock params s
      else if methodName = ''get_business_profile'' then plugin_getBusinessProfile e s
      else if methodName = ''update_business_profile'' then
        plugin_updateBusinessProfile e params s
      else (Inl (Error (''Unknown method: '' @ methodName)), s))"

fun execute ::
  "env \<Rightarrow> int \<times> int \<Rightarrow> execute_fn \<Rightarrow> (string \<times> jsval) list \<Rightarrow> plugin_state \<Rightarrow>
     (error + jsval) \<times> plugin_state" where
  "execute e clock (Builtin manifest_name) params (cl, net) =
     (if cl = None
      then (Inl (Error ''WhatsApp client not initialized. Call init() first.''), cl, net)
      else run_method e clock (replace_first manifest_name ''whatsapp_'' []) params (cl, net))"
| "execute e clock (Custom f) params (cl, net) = (f params, cl, net)"

definition executeTool ::
  "env \<Rightarrow> int \<times> int \<Rightarrow> string \<Rightarrow> (string \<times> jsval) list \<Rightarrow> WhatsAppPlugin \<times> request list \<Rightarrow>
     (error + jsval) \<times> WhatsAppPlugin \<times> request list" where
  "executeTool e clock n params s =
     (case s of (p, net) \<Rightarrow>
        (case getTool p n of
           None \<Rightarrow> (Inl (Error (''Tool '' @ n @ '' not found'')), p, net)
         | Some tool \<Rightarrow>
             (case execute e clock (tool_execute tool) params (client p, net) of
                (r, cl', net') \<Rightarrow> (r, p\<lparr> client := cl' \<rparr>, net'))))"

section \<open>Properties and example values\<close>

text \<open>
  A result that is a validation error naming the parameter \<open>r\<close>: an \<open>Error\<close> whose
  message starts with "Missing required parameter" and contains \<open>r\<close>.
\<close>

definition validation_error :: "string \<Rightarrow> error + jsval \<Rightarrow> bool" where
  "validation_error r res =
     (case res of
        Inl (Error msg) \<Rightarrow> startsWith msg ''Missing required parameter'' \<and> sublist r msg
      | _ \<Rightarrow> False)"

text \<open>
  A small world for the examples: the vendor accepts every request and answers with one
  message id, one file exists, the process environment is empty.
\<close>

definition example_env :: env where
  "example_env =
     \<lparr> respond = (\<lambda>net r. Inr (JObj [(''id'', JStr ''media.7''),
                (''messages'', JArr [JObj [(''id'', JStr ''wamid.1'')]])])),
       existsSync = (\<lambda>p. p = ''/tmp/cat.png''),
       process_env = Map.empty,
       Number = (\<lambda>s. if s = ''300'' then Finite 300 else if s = ''3600'' then Finite 3600
                      else if s = ''30000'' then Finite 30000 else NaN) \<rparr>"

definition example_config :: WhatsAppConfig where
  "example_config =
     \<lparr> apiVersion = None, apiToken = Some ''token'', phoneNumberId = Some ''1055'',
       businessAccountId = None, cacheMessageSeconds = None,
       cacheContactSeconds = Some (Finite 1), requestTimeout = None \<rparr>"

definition example_client :: WhatsAppClient where
  "example_client =
     \<lparr> apiInstance =
         \<lparr> baseURL = ''https://graph.facebook.com/v17.0'', timeout = Some (Finite 30000),
           authorization = ''Bearer token'' \<rparr>,
       config =
         \<lparr> apiVersion = Some ''v17.0'', apiToken = Some ''token'', phoneNumberId = Some ''1055'',
           businessAccountId = None, cacheMessageSeconds = Some (Finite 300),
           cacheContactSeconds = Some (Finite 1), requestTimeout = Some (Finite 30000) \<rparr>,
       messageCache = Map.empty,
       contactCache = Map.empty \<rparr>"

definition example_plugin :: WhatsAppPlugin where
  "example_plugin =
     \<lparr> client = Some example_client, whatsAppConfig = example_config, tools = [],
       config_tools = [] \<rparr>"

text \<open>
  The request that uploads a file, and the media object that a request to the messages
  endpoint carries under the key \<open>mediaType\<close>.
\<close>

definition upload_request :: "WhatsAppClient \<Rightarrow> jsval \<Rightarrow> request" where
  "upload_request c filePath =
     \<lparr> req_method = POST, req_url = endpoint c ''media'',
       req_body = Form [(''messaging_product'', Text ''whatsapp''),
                        (''file'', FileStream filePath)] \<rparr>"

definition sent_media :: "WhatsAppClient \<Rightarrow> string \<Rightarrow> request \<Rightarrow> jsval option" where
  "sent_media c mediaType r =
     (if req_method r = POST \<and> req_url r = endpoint c ''messages''
      then (case req_body r of Json (JObj payload) \<Rightarrow> Some (field (JObj payload) mediaType)
            | _ \<Rightarrow> None)
      else None)"

text \<open>
  The send-type operations of the client and the method names of the adapter that run them.
  \<open>answered_with e net rdata\<close>: the last request of \<open>net\<close> was answered with the response
  data \<open>rdata\<close>.
\<close>

fun is_send :: "client_op \<Rightarrow> bool" where
  "is_send (SendMessage to message) = True"
| "is_send (SendTemplateMessage options) = True"
| "is_send (SendMedia options) = True"
| "is_send (SendInteractiveMessage options) = True"
| "is_send (SendLocation options) = True"
| "is_send op = False"

definition send_methods :: "string list" where
  "send_methods =
     [''send_message'', ''send_template'', ''send_media'', ''send_interactive'', ''send_location'']"

definition answered_with :: "env \<Rightarrow> request list \<Rightarrow> jsval \<Rightarrow> bool" where
  "answered_with e net rdata = (net \<noteq> [] \<and> respond e (butlast net) (last net) = Inr rdata)"

text \<open>
  The contact that \<open>getContactInfo\<close> makes up for a normalized number, and the staleness
  rule in the words of the specification: an entry is stale when its age exceeds the time to
  live (seconds in the configuration, milliseconds on the clock).
\<close>

definition placeholder_contact :: "string \<Rightarrow> jsval" where
  "placeholder_contact formattedNumber =
     JObj [(''id'', JStr formattedNumber), (''name'', JUndefined),
           (''isBusiness'', JUndefined), (''profilePictureUrl'', JUndefined)]"

definition stale_in_spec :: "int \<Rightarrow> cache_entry \<Rightarrow> int \<Rightarrow> bool" where
  "stale_in_spec now entry secs = (now - timestamp entry > secs * 1000)"

text \<open>
  \<open>failed_with e net net' err\<close>: an operation that started with the requests \<open>net\<close> and
  ended with the requests \<open>net'\<close> made a request, and its last request failed with \<open>err\<close>.
  \<open>failing_env err\<close> is a world in which every request fails with \<open>err\<close>.
\<close>

definition failed_with :: "env \<Rightarrow> request list \<Rightarrow> request list \<Rightarrow> error \<Rightarrow> bool" where
  "failed_with e net net' err =
     (net' \<noteq> net \<and> net' \<noteq> [] \<and> respond e (butlast net') (last net') = Inl err)"

definition failing_env :: "error \<Rightarrow> env" where
  "failing_env err = example_env\<lparr> respond := (\<lambda>net r. Inl err) \<rparr>"

text \<open>
  In the words of the specification, a failure carries a structured vendor error body when
  it has a response whose data has an \<open>error\<close> member.
\<close>

definition structured_error_body :: "error \<Rightarrow> bool" where
  "structured_error_body err =
     (case err of
        AxiosError x (Some (Response statusCode responseData)) \<Rightarrow>
          truthy responseData \<and> truthy (field responseData ''error'')
      | _ \<Rightarrow> False)"

definition has_response :: "error \<Rightarrow> bool" where
  "has_response err = (case err of AxiosError x (Some resp) \<Rightarrow> True | _ \<Rightarrow> False)"

text \<open>A member of the vendor's error object, \<open>responseData.error.k\<close>.\<close>

definition vendor_field :: "jsval \<Rightarrow> string \<Rightarrow> jsval" where
  "vendor_field responseData k = field (field responseData ''error'') k"

fun is_contact_lookup :: "client_op \<Rightarrow> bool" where
  "is_contact_lookup (GetContactInfo phoneNumber now1 now2) = True"
| "is_contact_lookup op = False"

text \<open>
  The keys of a JavaScript \<open>Map\<close> are distinct, and the exposed tool list is in step with
  the tool map when it lists the map's values. \<open>example_tool\<close> is a tool registered from
  outside.
\<close>

definition tools_wf :: "WhatsAppPlugin \<Rightarrow> bool" where
  "tools_wf p = distinct (map fst (tools p))"

definition in_step :: "WhatsAppPlugin \<Rightarrow> bool" where
  "in_step p = (config_tools p = map snd (tools p))"

definition example_tool :: Plugin where
  "example_tool =
     \<lparr> tool_name = ''echo'', tool_description = ''Returns its parameters'',
       tool_parameters = [], tool_execute = Custom (\<lambda>params. Inr (JObj params)) \<rparr>"

text \<open>
  The request that a send operation posts, the recipient as a send operation reads it from
  its arguments, and what the adapter makes of the outcome of a send method of the client.
\<close>

definition send_request :: "WhatsAppClient \<Rightarrow> jsval \<Rightarrow> request" where
  "send_request c payload =
     \<lparr> req_method = POST, req_url = endpoint c ''messages'', req_body = Json payload \<rparr>"

fun recipient_of :: "client_op \<Rightarrow> jsval" where
  "recipient_of (SendMessage to message) = to"
| "recipient_of (SendTemplateMessage options) = field options ''to''"
| "recipient_of (SendMedia options) = field options ''to''"
| "recipient_of (SendInteractiveMessage options) = field options ''to''"
| "recipient_of (SendLocation options) = field options ''to''"
| "recipient_of op = JUndefined"

fun is_media :: "client_op \<Rightarrow> bool" where
  "is_media (SendMedia options) = True"
| "is_media op = False"

definition adapter_result ::
  "(error + jsval) \<times> WhatsAppClient \<times> request list \<Rightarrow> (error + jsval) \<times> plugin_state" where
  "adapter_result r =
     (case r of
        (Inl err, c, net) \<Rightarrow> (Inl err, Some c, net)
      | (Inr messageId, c, net) \<Rightarrow>
          (Inr (JObj [(''success'', JBool True), (''messageId'', messageId)]), Some c, net))"

section \<open>Basic facts\<close>


lemma field_obj_set_same [simp]:
  "k \<noteq> ''__proto__'' \<Longrightarrow> field (JObj (obj_set kvs k v)) k = v"
  by (simp add: obj_set_def update_conv')

lemma field_obj_set_other [simp]: "k' \<noteq> k \<Longrightarrow> field (JObj (obj_set kvs k v)) k' = field (JObj kvs) k'"
  by (simp add: obj_set_def update_conv')

lemma field_obj_set_in:
  "field (JObj kvs) k = JObj inner \<Longrightarrow>
   field (JObj (obj_set_in kvs k k2 v)) k = JObj (obj_set inner k2 v)"
  by (auto simp: obj_set_in_def update_conv' split: option.splits)

lemma snd_try_catch [simp]: "snd (try_catch m r) = snd r"
  by (cases r) (auto simp: try_catch_def split: sum.splits)

lemma snd_post_message [simp]:
  "snd (post_message e c payload net) =
     net @ [\<lparr> req_method = POST, req_url = endpoint c ''messages'', req_body = Json payload \<rparr>]"
  by (simp add: post_message_def http_def split: sum.splits)

lemma handleApiError_Error [simp]: "handleApiError m (Error x) = Error x"
  by (simp add: handleApiError_def)

lemma handleApiError_TypeError [simp]: "handleApiError m TypeError = TypeError"
  by (simp add: handleApiError_def)

lemma handleApiError_no_response [simp]: "handleApiError m (AxiosError x None) = AxiosError x None"
  by (simp add: handleApiError_def)

lemma handleApiError_idem [simp]:
  "handleApiError m2 (handleApiError m1 err) = handleApiError m1 err"
proof (cases err)
  case (AxiosError x r)
  then show ?thesis
    by (cases r) (auto simp: handleApiError_def Let_def split: response.splits)
qed simp_all

lemma uploadMedia_cases:
  "uploadMedia e c fp net = (r, net1) \<Longrightarrow>
     (net1 = net \<and> (\<exists>x. r = Inl (Error x))) \<or>
     (net1 = net @ [upload_request c fp] \<and>
        (case r of Inl err \<Rightarrow> \<forall>m. handleApiError m err = err
                  | Inr mediaId \<Rightarrow> truthy mediaId))"
  by (auto simp: uploadMedia_def upload_request_def http_def try_catch_def
      split: if_splits sum.splits prod.splits)


lemma sendMedia_unfold:
  assumes to: "get_prop options ''to'' = Inr (JStr t)" and ty: "field options ''type'' = JStr ty"
  shows "sendMedia e c options net =
     try_catch ''Error sending media message''
            (case (if truthy (field options ''filePath'')
                   then uploadMedia e c (field options ''filePath'') net
                   else (Inr JUndefined, net)) of
               (Inl err, net1) \<Rightarrow> (Inl err, net1)
             | (Inr mediaId, net1) \<Rightarrow>
                 (let payload =
                        [(''messaging_product'', JStr ''whatsapp''),
                         (''recipient_type'', JStr ''individual''),
                         (''to'', JStr (formatPhoneNumber t)),
                         (''type'', JStr (toLowerCase ty))]
                  in case (if truthy mediaId
                           then Inr (obj_set payload (toLowerCase ty) (JObj [(''id'', mediaId)]))
                           else if truthy (field options ''url'')
                           then Inr (obj_set payload (toLowerCase ty)
                                       (JObj [(''link'', field options ''url'')]))
                           else Inl (Error ''Either filePath or url must be provided'')) of
                       Inl err \<Rightarrow> (Inl err, net1)
                     | Inr payload1 \<Rightarrow>
                         (let payload2 =
                                (if truthy (field options ''caption'')
                                 then obj_set_in payload1 (toLowerCase ty) ''caption''
                                        (field options ''caption'')
                                 else payload1);
                              payload3 =
                                (if toLowerCase ty = ''document'' \<and> truthy (field options ''filename'')
                                 then obj_set_in payload2 (toLowerCase ty) ''filename''
                                        (field options ''filename'')
                                 else payload2)
                          in post_message e c (JObj payload3) net1)))"
  by (simp add: sendMedia_def to ty and_then_def call_formatPhoneNumber_def call_toLowerCase_def)

text \<open>The definitions that evaluate a call on concrete values.\<close>

lemmas eval_defs = sendMedia_def sendMessage_def uploadMedia_def http_def example_env_def
  example_client_def example_config_def
  post_message_def response_message_id_def try_catch_def obj_set_def obj_set_in_def
  toLowerCase_def lower_char_def formatPhoneNumber_def startsWith_def substring_def
  replace_non_digits_def is_digit_def and_then_def get_prop_def nullish_def
  call_formatPhoneNumber_def call_toLowerCase_def js_gt_zero_def ToNumber_def endpoint_def
  str_of_def upload_request_def sent_media_def Let_def
  run_method_def plugin_sendMessage_def par_def on_client_def success_messageId_def

lemmas show_defs = show_int_def show_nat.simps digit_char_def

lemma example_first_lookup:
  "getContactInfo example_client (JStr ''+4930'') 0 0 =
     (Inr (placeholder_contact ''4930''),
      example_client\<lparr> contactCache := [''contact_4930'' \<mapsto>
         \<lparr> entry_data = placeholder_contact ''4930'', timestamp = 0 \<rparr>] \<rparr>)"
  by (simp add: getContactInfo_def call_formatPhoneNumber_def Let_def placeholder_contact_def
      formatPhoneNumber_def startsWith_def substring_def example_client_def)


section \<open>Required parameters\<close>

lemma manifest_catalog:
  "map (\<lambda>m. (m_name m, m_required m)) getChatManifests =
     [(''whatsapp_send_message'', Some [''to'', ''message'']),
      (''whatsapp_send_template'', Some [''to'', ''templateName'', ''language'']),
      (''whatsapp_send_media'', Some [''to'', ''type'']),
      (''whatsapp_send_interactive'', Some [''to'', ''type'', ''body'', ''action'']),
      (''whatsapp_send_location'', Some [''to'', ''latitude'', ''longitude'']),
      (''whatsapp_mark_as_read'', Some [''messageId'']),
      (''whatsapp_get_contact_info'', Some [''phoneNumber'']),
      (''whatsapp_get_business_profile'', None),
      (''whatsapp_update_business_profile'', None)]"
  by (simp add: getChatManifests_def)

lemma manifest_names_distinct: "distinct (map m_name getChatManifests)"
proof -
  have "map m_name getChatManifests = map fst (map (\<lambda>m. (m_name m, m_required m)) getChatManifests)"
    by simp
  then show ?thesis unfolding manifest_catalog by simp
qed

lemma par_absent: "map_of params k = None \<Longrightarrow> par params k = JUndefined"
  by (simp add: par_def)

lemma missing_send_message:
  assumes "r \<in> set [''to'', ''message'']" "map_of params r = None"
  shows "validation_error r (fst (run_method e clock ''send_message'' params (cl, net))) \<and>
    snd (run_method e clock ''send_message'' params (cl, net)) = (cl, net)"
proof -
  have "\<not> truthy (par params ''to'') \<or> \<not> truthy (par params ''message'')"
    using assms par_absent [of params r] by auto
  then have "run_method e clock ''send_message'' params (cl, net) =
      (Inl (Error ''Missing required parameters: to, message''), cl, net)"
    by (simp add: run_method_def plugin_sendMessage_def)
  moreover have "sublist ''to'' ''Missing required parameters: to, message''"
    "sublist ''message'' ''Missing required parameters: to, message''"
    by code_simp+
  ultimately show ?thesis using assms(1)
    by (auto simp: validation_error_def startsWith_def)
qed

lemma missing_send_template:
  assumes "r \<in> set [''to'', ''templateName'', ''language'']" "map_of params r = None"
  shows "validation_error r (fst (run_method e clock ''send_template'' params (cl, net))) \<and>
    snd (run_method e clock ''send_template'' params (cl, net)) = (cl, net)"
proof -
  have "\<not> truthy (par params ''to'') \<or> \<not> truthy (par params ''templateName'') \<or> \<not> truthy (par params ''language'')"
    using assms par_absent [of params r] by auto
  then have "run_method e clock ''send_template'' params (cl, net) =
      (Inl (Error ''Missing required parameters: to, templateName, language''), cl, net)"
    by (simp add: run_method_def plugin_sendTemplateMessage_def)
  moreover have "sublist ''to'' ''Missing required parameters: to, templateName, language''"
    "sublist ''templateName'' ''Missing required parameters: to, templateName, language''"
    "sublist ''language'' ''Missing required parameters: to, templateName, language''"
    by code_simp+
  ultimately show ?thesis using assms(1)
    by (auto simp: validation_error_def startsWith_def)
qed

lemma missing_send_media:
  assumes "r \<in> set [''to'', ''type'']" "map_of params r = None"
  shows "validation_error r (fst (run_method e clock ''send_media'' params (cl, net))) \<and>
    snd (run_method e clock ''send_media'' params (cl, net)) = (cl, net)"
proof -
  have "\<not> truthy (par params ''to'') \<or> \<not> truthy (par params ''type'')"
    using assms par_absent [of params r] by auto
  then have "run_method e clock ''send_media'' params (cl, net) =
      (Inl (Error ''Missing required parameters: to, type, (url or filePath)''), cl, net)"
    by (auto simp: run_method_def plugin_sendMedia_def)
  moreover have "sublist ''to'' ''Missing required parameters: to, type, (url or filePath)''"
    "sublist ''type'' ''Missing required parameters: to, type, (url or filePath)''"
    by code_simp+
  ultimately show ?thesis using assms(1)
    by (auto simp: validation_error_def startsWith_def)
qed

lemma missing_send_interactive:
  assumes "r \<in> set [''to'', ''type'', ''body'', ''action'']" "map_of params r = None"
  shows "validation_error r (fst (run_method e clock ''send_interactive'' params (cl, net))) \<and>
    snd (run_method e clock ''send_interactive'' params (cl, net)) = (cl, net)"
proof -
  have "\<not> truthy (par params ''to'') \<or> \<not> truthy (par params ''type'') \<or> \<not> truthy (par params ''body'') \<or> \<not> truthy (par params ''action'')"
    using assms par_absent [of params r] by auto
  then have "run_method e clock ''send_interactive'' params (cl, net) =
      (Inl (Error ''Missing required parameters: to, type, body, action''), cl, net)"
    by (simp add: run_method_def plugin_sendInteractiveMessage_def)
  moreover have "sublist ''to'' ''Missing required parameters: to, type, body, action''"
    "sublist ''type'' ''Missing required parameters: to, type, body, action''"
    "sublist ''body'' ''Missing required parameters: to, type, body, action''"
    "sublist ''action'' ''Missing required parameters: to, type, body, action''"
    by code_simp+
  ultimately show ?thesis using assms(1)
    by (auto simp: validation_error_def startsWith_def)
qed

lemma missing_send_location:
  assumes "r \<in> set [''to'', ''latitude'', ''longitude'']" "map_of params r = None"
  shows "validation_error r (fst (run_method e clock ''send_location'' params (cl, net))) \<and>
    snd (run_method e clock ''send_location'' params (cl, net)) = (cl, net)"
proof -
  have "\<not> truthy (par params ''to'') \<or> par params ''latitude'' = JUndefined \<or> par params ''longitude'' = JUndefined"
    using assms par_absent [of params r] by auto
  then have "run_method e clock ''send_location'' params (cl, net) =
      (Inl (Error ''Missing required parameters: to, latitude, longitude''), cl, net)"
    by (simp add: run_method_def plugin_sendLocation_def)
  moreover have "sublist ''to'' ''Missing required parameters: to, latitude, longitude''"
    "sublist ''latitude'' ''Missing required parameters: to, latitude, longitude''"
    "sublist ''longitude'' ''Missing required parameters: to, latitude, longitude''"
    by code_simp+
  ultimately show ?thesis using assms(1)
    by (auto simp: validation_error_def startsWith_def)
qed

lemma missing_mark_as_read:
  assumes "r \<in> set [''messageId'']" "map_of params r = None"
  shows "validation_error r (fst (run_method e clock ''mark_as_read'' params (cl, net))) \<and>
    snd (run_method e clock ''mark_as_read'' params (cl, net)) = (cl, net)"
proof -
  have "\<not> truthy (par params ''messageId'')"
    using assms par_absent [of params r] by auto
  then have "run_method e clock ''mark_as_read'' params (cl, net) =
      (Inl (Error ''Missing required parameter: messageId''), cl, net)"
    by (simp add: run_method_def plugin_markAsRead_def)
  moreover have "sublist ''messageId'' ''Missing required parameter: messageId''"
    by code_simp+
  ultimately show ?thesis using assms(1)
    by (auto simp: validation_error_def startsWith_def)
qed

lemma missing_get_contact_info:
  assumes "r \<in> set [''phoneNumber'']" "map_of params r = None"
  shows "validation_error r (fst (run_method e clock ''get_contact_info'' params (cl, net))) \<and>
    snd (run_method e clock ''get_contact_info'' params (cl, net)) = (cl, net)"
proof -
  have "\<not> truthy (par params ''phoneNumber'')"
    using assms par_absent [of params r] by auto
  then have "run_method e clock ''get_contact_info'' params (cl, net) =
      (Inl (Error ''Missing required parameter: phoneNumber''), cl, net)"
    by (simp add: run_method_def plugin_getContactInfo_def)
  moreover have "sublist ''phoneNumber'' ''Missing required parameter: phoneNumber''"
    by code_simp+
  ultimately show ?thesis using assms(1)
    by (auto simp: validation_error_def startsWith_def)
qed

lemma method_names:
  "replace_first ''whatsapp_send_message'' ''whatsapp_'' [] = ''send_message''"
  "replace_first ''whatsapp_send_template'' ''whatsapp_'' [] = ''send_template''"
  "replace_first ''whatsapp_send_media'' ''whatsapp_'' [] = ''send_media''"
  "replace_first ''whatsapp_send_interactive'' ''whatsapp_'' [] = ''send_interactive''"
  "replace_first ''whatsapp_send_location'' ''whatsapp_'' [] = ''send_location''"
  "replace_first ''whatsapp_mark_as_read'' ''whatsapp_'' [] = ''mark_as_read''"
  "replace_first ''whatsapp_get_contact_info'' ''whatsapp_'' [] = ''get_contact_info''"
  "replace_first ''whatsapp_get_business_profile'' ''whatsapp_'' [] = ''get_business_profile''"
  "replace_first ''whatsapp_update_business_profile'' ''whatsapp_'' [] =
     ''update_business_profile''"
  by (simp_all add: startsWith_def)

lemma missing_required_method:
  assumes m: "m \<in> set getChatManifests"
    and rs: "m_required m = Some rs" and r: "r \<in> set rs"
    and absent: "map_of params r = None"
  shows "validation_error r
           (fst (run_method e clock (replace_first (m_name m) ''whatsapp_'' []) params (cl, net))) \<and>
         snd (run_method e clock (replace_first (m_name m) ''whatsapp_'' []) params (cl, net)) =
           (cl, net)"
proof -
  from m have "(m_name m, m_required m) \<in> set (map (\<lambda>m. (m_name m, m_required m)) getChatManifests)"
    by simp
  then have "(m_name m, Some rs) \<in> set
     [(''whatsapp_send_message'', Some [''to'', ''message'']),
      (''whatsapp_send_template'', Some [''to'', ''templateName'', ''language'']),
      (''whatsapp_send_media'', Some [''to'', ''type'']),
      (''whatsapp_send_interactive'', Some [''to'', ''type'', ''body'', ''action'']),
      (''whatsapp_send_location'', Some [''to'', ''latitude'', ''longitude'']),
      (''whatsapp_mark_as_read'', Some [''messageId'']),
      (''whatsapp_get_contact_info'', Some [''phoneNumber''])]"
    unfolding manifest_catalog rs by auto
  then have
    "(m_name m = ''whatsapp_send_message'' \<and> rs = [''to'', ''message'']) \<or>
     (m_name m = ''whatsapp_send_template'' \<and> rs = [''to'', ''templateName'', ''language'']) \<or>
     (m_name m = ''whatsapp_send_media'' \<and> rs = [''to'', ''type'']) \<or>
     (m_name m = ''whatsapp_send_interactive'' \<and> rs = [''to'', ''type'', ''body'', ''action'']) \<or>
     (m_name m = ''whatsapp_send_location'' \<and> rs = [''to'', ''latitude'', ''longitude'']) \<or>
     (m_name m = ''whatsapp_mark_as_read'' \<and> rs = [''messageId'']) \<or>
     (m_name m = ''whatsapp_get_contact_info'' \<and> rs = [''phoneNumber''])"
    by simp
  then show ?thesis
  proof (elim disjE conjE)
    assume "m_name m = ''whatsapp_send_message''" and "rs = [''to'', ''message'']"
    then show ?thesis
      using missing_send_message [of r params e clock cl net] r absent
      by (simp only: method_names)
  next
    assume "m_name m = ''whatsapp_send_template''" and "rs = [''to'', ''templateName'', ''language'']"
    then show ?thesis
      using missing_send_template [of r params e clock cl net] r absent
      by (simp only: method_names)
  next
    assume "m_name m = ''whatsapp_send_media''" and "rs = [''to'', ''type'']"
    then show ?thesis
      using missing_send_media [of r params e clock cl net] r absent
      by (simp only: method_names)
  next
    assume "m_name m = ''whatsapp_send_interactive''" and "rs = [''to'', ''type'', ''body'', ''action'']"
    then show ?thesis
      using missing_send_interactive [of r params e clock cl net] r absent
      by (simp only: method_names)
  next
    assume "m_name m = ''whatsapp_send_location''" and "rs = [''to'', ''latitude'', ''longitude'']"
    then show ?thesis
      using missing_send_location [of r params e clock cl net] r absent
      by (simp only: method_names)
  next
    assume "m_name m = ''whatsapp_mark_as_read''" and "rs = [''messageId'']"
    then show ?thesis
      using missing_mark_as_read [of r params e clock cl net] r absent
      by (simp only: method_names)
  next
    assume "m_name m = ''whatsapp_get_contact_info''" and "rs = [''phoneNumber'']"
    then show ?thesis
      using missing_get_contact_info [of r params e clock cl net] r absent
      by (simp only: method_names)
  qed
qed

subsection \<open>The tools that \<open>initializeTools\<close> registers\<close>

lemma foldl_update_other:
  "k \<notin> f ` set ms \<Longrightarrow>
   map_of (foldl (\<lambda>ts m. AList.update (f m) (g m) ts) ts ms) k = map_of ts k"
  by (induction ms arbitrary: ts) (auto simp: update_conv')

lemma foldl_update_member:
  "distinct (map f ms) \<Longrightarrow> m \<in> set ms \<Longrightarrow>
   map_of (foldl (\<lambda>ts m. AList.update (f m) (g m) ts) ts ms) (f m) = Some (g m)"
proof (induction ms arbitrary: ts)
  case Nil
  then show ?case by simp
next
  case (Cons a ms)
  show ?case
  proof (cases "m = a")
    case True
    with Cons.prems have "f a \<notin> f ` set ms" by auto
    then show ?thesis using True
      by (simp add: foldl_update_other update_conv')
  next
    case False
    with Cons show ?thesis by auto
  qed
qed

lemma getTool_initializeTools:
  assumes "m \<in> set getChatManifests"
  shows "getTool (initializeTools p) (m_name m) =
     Some \<lparr> tool_name = m_name m, tool_description = m_description m,
            tool_parameters = convertParameters m, tool_execute = Builtin (m_name m) \<rparr>"
  using foldl_update_member [OF manifest_names_distinct assms]
  by (simp add: getTool_def initializeTools_def Let_def)

lemma client_initializeTools [simp]: "client (initializeTools p) = client p"
  by (simp add: initializeTools_def Let_def)

text \<open>
  C1. For every tool of the catalog and every parameter that its manifest marks as required,
  running the tool's handler on a parameter record that lacks this parameter fails with a
  validation error whose message names the parameter, and leaves the client and the list of
  requests as they were: the method of the API client is not called and no request is made.
  The same holds when the tool is run by name on an initialized plugin.
\<close>

theorem missing_required_parameter:
  assumes "m \<in> set getChatManifests"
    and "m_required m = Some rs" and "r \<in> set rs"
    and "map_of params r = None"
  shows
    "validation_error r
       (fst (run_method e clock (replace_first (m_name m) ''whatsapp_'' []) params (cl, net))) \<and>
     snd (run_method e clock (replace_first (m_name m) ''whatsapp_'' []) params (cl, net)) =
       (cl, net) \<and>
     (client p \<noteq> None \<longrightarrow>
        validation_error r
          (fst (executeTool e clock (m_name m) params (initializeTools p, net))) \<and>
        snd (executeTool e clock (m_name m) params (initializeTools p, net)) =
          (initializeTools p, net))"
proof -
  let ?run = "run_method e clock (replace_first (m_name m) ''whatsapp_'' []) params"
  have handler: "validation_error r (fst (?run (cl, net))) \<and> snd (?run (cl, net)) = (cl, net)"
    for cl
    using missing_required_method [OF assms] .
  have "validation_error r
          (fst (executeTool e clock (m_name m) params (initializeTools p, net))) \<and>
        snd (executeTool e clock (m_name m) params (initializeTools p, net)) =
          (initializeTools p, net)"
    if "client p \<noteq> None"
  proof -
    from that obtain c where c: "client p = Some c" by auto
    obtain res where res: "?run (Some c, net) = (res, Some c, net)"
      using handler [of "Some c"] by (cases "?run (Some c, net)") auto
    then have "validation_error r res" using handler [of "Some c"] by simp
    moreover have "(initializeTools p)\<lparr>client := Some c\<rparr> = initializeTools p"
      using c by (simp add: initializeTools_def Let_def)
    ultimately show ?thesis
      using res c by (simp add: executeTool_def getTool_initializeTools [OF assms(1)])
  qed
  with handler [of cl] show ?thesis by blast
qed

theorem missing_required_parameter_witness:
  "hd getChatManifests \<in> set getChatManifests \<and>
   m_required (hd getChatManifests) = Some [''to'', ''message''] \<and>
   ''message'' \<in> set [''to'', ''message''] \<and>
   map_of [(''to'', JStr ''+4930'')] ''message'' = None \<and>
   client example_plugin \<noteq> None \<and>
   run_method example_env (0, 0) ''send_message'' [(''to'', JStr ''+4930'')] (None, []) =
     (Inl (Error ''Missing required parameters: to, message''), None, []) \<and>
   validation_error ''message''
     (fst (executeTool example_env (0, 0) (m_name (hd getChatManifests))
        [(''to'', JStr ''+4930'')] (initializeTools example_plugin, []))) \<and>
   snd (executeTool example_env (0, 0) (m_name (hd getChatManifests))
        [(''to'', JStr ''+4930'')] (initializeTools example_plugin, [])) =
     (initializeTools example_plugin, [])"
proof -
  have h1: "hd getChatManifests \<in> set getChatManifests"
    by (simp add: getChatManifests_def)
  have h2: "m_required (hd getChatManifests) = Some [''to'', ''message'']"
    by (simp add: getChatManifests_def)
  have h3: "''message'' \<in> set [''to'', ''message'']" by simp
  have h4: "map_of [(''to'', JStr ''+4930'')] ''message'' = None" by simp
  have h5: "client example_plugin \<noteq> None" by (simp add: example_plugin_def)
  have run: "run_method example_env (0, 0) ''send_message'' [(''to'', JStr ''+4930'')] (None, []) =
     (Inl (Error ''Missing required parameters: to, message''), None, [])"
    by (simp add: run_method_def plugin_sendMessage_def par_def)
  from missing_required_parameter [OF h1 h2 h3 h4, of example_env "(0, 0)" None "[]" example_plugin]
    h1 h2 h3 h4 h5 run
  show ?thesis by simp
qed

section \<open>Phone-number normalization\<close>

text \<open>
  C2. For every input string, normalization returns the input without its leading plus sign
  when the input starts with one, and otherwise the input with every character that is not a
  decimal digit removed. The two examples of the specification evaluate as stated, and an
  input made of digits only is returned as it is, so that normalizing it again changes nothing.
\<close>

theorem formatPhoneNumber_normalizes:
  "(s = CHR ''+'' # r \<longrightarrow> formatPhoneNumber s = r) \<and>
   ((s = [] \<or> hd s \<noteq> CHR ''+'') \<longrightarrow> formatPhoneNumber s = filter is_digit s) \<and>
   formatPhoneNumber ''+1234567890'' = ''1234567890'' \<and>
   formatPhoneNumber ''1 (234) 567-890'' = ''1234567890'' \<and>
   ((\<forall>c \<in> set s. is_digit c) \<longrightarrow>
      formatPhoneNumber s = s \<and> formatPhoneNumber (formatPhoneNumber s) = formatPhoneNumber s)"
proof -
  have plus: "s = CHR ''+'' # r \<longrightarrow> formatPhoneNumber s = r"
    by (simp add: formatPhoneNumber_def startsWith_def substring_def)
  have other: "(s = [] \<or> hd s \<noteq> CHR ''+'') \<longrightarrow> formatPhoneNumber s = filter is_digit s"
    by (cases s) (auto simp: formatPhoneNumber_def startsWith_def replace_non_digits_def)
  have ex1: "formatPhoneNumber ''+1234567890'' = ''1234567890''"
    by (simp add: formatPhoneNumber_def startsWith_def substring_def)
  have ex2: "formatPhoneNumber ''1 (234) 567-890'' = ''1234567890''"
    by (simp add: formatPhoneNumber_def startsWith_def replace_non_digits_def is_digit_def)
  have digits: "(\<forall>c \<in> set s. is_digit c) \<longrightarrow> formatPhoneNumber s = s"
  proof
    assume all: "\<forall>c \<in> set s. is_digit c"
    have "\<not> is_digit CHR ''+''" by (simp add: is_digit_def)
    with all have "s = [] \<or> hd s \<noteq> CHR ''+''" by (cases s) auto
    with other have "formatPhoneNumber s = filter is_digit s" by blast
    with all show "formatPhoneNumber s = s" by simp
  qed
  from plus other ex1 ex2 digits show ?thesis by simp
qed

theorem formatPhoneNumber_normalizes_witness:
  "formatPhoneNumber ''+49 (0) 30'' = ''49 (0) 30'' \<and>
   formatPhoneNumber ''49 (0) 30-12'' = ''4903012'' \<and>
   list_all is_digit ''4903012'' \<and>
   formatPhoneNumber ''4903012'' = ''4903012''"
  using formatPhoneNumber_normalizes [of "''+49 (0) 30''" "''49 (0) 30''"]
    formatPhoneNumber_normalizes [of "''49 (0) 30-12''"]
    formatPhoneNumber_normalizes [of "''4903012''"]
  by (simp add: is_digit_def)

section \<open>The source of a media message\<close>


text \<open>The media object after the optional caption and file name have been added.\<close>

lemma media_object_kept:
  assumes "field (JObj payload1) mt = JObj inner"
    and "payload2 = (if b1 then obj_set_in payload1 mt ''caption'' v1 else payload1)"
    and "payload3 = (if b2 then obj_set_in payload2 mt ''filename'' v2 else payload2)"
  shows "\<exists>media. field (JObj payload3) mt = media \<and>
           field media ''id'' = field (JObj inner) ''id'' \<and>
           field media ''link'' = field (JObj inner) ''link''"
proof -
  have 2: "\<exists>inner2. field (JObj payload2) mt = JObj inner2 \<and>
      field (JObj inner2) ''id'' = field (JObj inner) ''id'' \<and>
      field (JObj inner2) ''link'' = field (JObj inner) ''link''"
  proof (cases b1)
    case True
    then have "field (JObj payload2) mt = JObj (obj_set inner ''caption'' v1)"
      using assms(1,2) field_obj_set_in by simp
    moreover have "field (JObj (obj_set inner ''caption'' v1)) ''id'' = field (JObj inner) ''id''"
      "field (JObj (obj_set inner ''caption'' v1)) ''link'' = field (JObj inner) ''link''"
      by (rule field_obj_set_other, simp)+
    ultimately show ?thesis by blast
  next
    case False
    with assms(1,2) show ?thesis by simp
  qed
  then obtain inner2 where i2: "field (JObj payload2) mt = JObj inner2"
    "field (JObj inner2) ''id'' = field (JObj inner) ''id''"
    "field (JObj inner2) ''link'' = field (JObj inner) ''link''" by blast
  show ?thesis
  proof (cases b2)
    case True
    then have "field (JObj payload3) mt = JObj (obj_set inner2 ''filename'' v2)"
      using i2(1) assms(3) field_obj_set_in by simp
    moreover have "field (JObj (obj_set inner2 ''filename'' v2)) ''id'' = field (JObj inner2) ''id''"
      "field (JObj (obj_set inner2 ''filename'' v2)) ''link'' = field (JObj inner2) ''link''"
      by (rule field_obj_set_other, simp)+
    ultimately show ?thesis using i2 by simp
  next
    case False
    with i2 assms(3) show ?thesis by simp
  qed
qed


lemma send_part:
  assumes p1: "field (JObj payload1) mt = JObj inner"
  shows "\<exists>send media.
     snd (let payload2 = (if b1 then obj_set_in payload1 mt ''caption'' v1 else payload1);
              payload3 = (if b2 then obj_set_in payload2 mt ''filename'' v2 else payload2)
          in post_message e c (JObj payload3) net1) = net1 @ [send] \<and>
     sent_media c mt send = Some media \<and>
     field media ''id'' = field (JObj inner) ''id'' \<and>
     field media ''link'' = field (JObj inner) ''link''"
proof -
  define payload2 where "payload2 = (if b1 then obj_set_in payload1 mt ''caption'' v1 else payload1)"
  define payload3 where "payload3 = (if b2 then obj_set_in payload2 mt ''filename'' v2 else payload2)"
  from media_object_kept [OF p1 payload2_def payload3_def]
  obtain media where m: "field (JObj payload3) mt = media"
    "field media ''id'' = field (JObj inner) ''id''"
    "field media ''link'' = field (JObj inner) ''link''" by blast
  let ?send = "\<lparr> req_method = POST, req_url = endpoint c ''messages'',
                  req_body = Json (JObj payload3) \<rparr>"
  have "sent_media c mt ?send = Some media"
    using m(1) by (simp add: sent_media_def del: field.simps)
  moreover have "snd (post_message e c (JObj payload3) net1) = net1 @ [?send]" by simp
  ultimately show ?thesis
    using m(2,3) unfolding Let_def payload2_def [symmetric] payload3_def [symmetric] by blast
qed

text \<open>A call whose recipient or media type is not a string throws before the \<open>try\<close> block.\<close>

lemma sendMedia_untyped:
  assumes "(\<forall>t. get_prop options ''to'' \<noteq> Inr (JStr t)) \<or>
           (\<forall>ty. field options ''type'' \<noteq> JStr ty)"
  shows "sendMedia e c options net = (Inl TypeError, net)"
proof (cases "get_prop options ''to''")
  case (Inl err)
  then have "err = TypeError" by (simp add: get_prop_def split: if_splits)
  with Inl show ?thesis by (simp add: sendMedia_def and_then_def)
next
  case (Inr v)
  show ?thesis
  proof (cases "\<exists>t. v = JStr t")
    case False
    then have "call_formatPhoneNumber v = Inl TypeError"
      by (cases v) (simp_all add: call_formatPhoneNumber_def)
    with Inr show ?thesis by (simp add: sendMedia_def and_then_def)
  next
    case True
    with Inr assms have "\<forall>ty. field options ''type'' \<noteq> JStr ty" by auto
    then have "call_toLowerCase (field options ''type'') = Inl TypeError"
      by (cases "field options ''type''") (simp_all add: call_toLowerCase_def)
    with Inr True show ?thesis
      by (auto simp: sendMedia_def and_then_def call_formatPhoneNumber_def)
  qed
qed

lemma sendMedia_neither:
  assumes "\<not> truthy (field options ''filePath'')" and "\<not> truthy (field options ''url'')"
  shows "\<exists>err. sendMedia e c options net = (Inl err, net)"
proof (cases "(\<forall>t. get_prop options ''to'' \<noteq> Inr (JStr t)) \<or>
              (\<forall>ty. field options ''type'' \<noteq> JStr ty)")
  case True
  from sendMedia_untyped [OF this] show ?thesis by blast
next
  case False
  then obtain t ty where "get_prop options ''to'' = Inr (JStr t)"
    and "field options ''type'' = JStr ty" by blast
  from sendMedia_unfold [OF this, of e c net] assms show ?thesis
    by (simp add: try_catch_def)
qed

lemma sendMedia_typed:
  assumes to: "get_prop options ''to'' = Inr (JStr t)" and ty: "field options ''type'' = JStr ty"
  shows
   "(\<not> truthy (field options ''filePath'') \<and> \<not> truthy (field options ''url'') \<longrightarrow>
       sendMedia e c options net =
         (Inl (Error ''Either filePath or url must be provided''), net)) \<and>
    (truthy (field options ''filePath'') \<longrightarrow>
       (case uploadMedia e c (field options ''filePath'') net of
          (Inl err, net1) \<Rightarrow>
             sendMedia e c options net = (Inl err, net1) \<and>
             (net1 = net \<or> net1 = net @ [upload_request c (field options ''filePath'')])
        | (Inr mediaId, net1) \<Rightarrow>
             truthy mediaId \<and>
             (\<exists>send.
                 snd (sendMedia e c options net) =
                   net @ [upload_request c (field options ''filePath''), send] \<and>
                 (toLowerCase ty \<noteq> ''__proto__'' \<longrightarrow>
                    (\<exists>media.
                        sent_media c (toLowerCase ty) send = Some media \<and>
                        field media ''id'' = mediaId \<and> field media ''link'' = JUndefined))))) \<and>
    (\<not> truthy (field options ''filePath'') \<and> truthy (field options ''url'') \<longrightarrow>
       (\<exists>send.
           snd (sendMedia e c options net) = net @ [send] \<and>
           (toLowerCase ty \<noteq> ''__proto__'' \<longrightarrow>
              (\<exists>media.
                  sent_media c (toLowerCase ty) send = Some media \<and>
                  field media ''link'' = field options ''url'' \<and>
                  field media ''id'' = JUndefined))))"
proof (intro conjI impI)
  note unfold = sendMedia_unfold [OF to ty, of e c net]
  let ?payload = "[(''messaging_product'', JStr ''whatsapp''),
                   (''recipient_type'', JStr ''individual''),
                   (''to'', JStr (formatPhoneNumber t)),
                   (''type'', JStr (toLowerCase ty))]"
  {
    assume "\<not> truthy (field options ''filePath'') \<and> \<not> truthy (field options ''url'')"
    then show "sendMedia e c options net =
        (Inl (Error ''Either filePath or url must be provided''), net)"
      unfolding unfold by (simp add: try_catch_def)
  }
  {
    assume fp: "truthy (field options ''filePath'')"
    obtain r net1 where up: "uploadMedia e c (field options ''filePath'') net = (r, net1)"
      by (cases "uploadMedia e c (field options ''filePath'') net")
    show "case uploadMedia e c (field options ''filePath'') net of
          (Inl err, net1) \<Rightarrow>
             sendMedia e c options net = (Inl err, net1) \<and>
             (net1 = net \<or> net1 = net @ [upload_request c (field options ''filePath'')])
        | (Inr mediaId, net1) \<Rightarrow>
             truthy mediaId \<and>
             (\<exists>send.
                 snd (sendMedia e c options net) =
                   net @ [upload_request c (field options ''filePath''), send] \<and>
                 (toLowerCase ty \<noteq> ''__proto__'' \<longrightarrow>
                    (\<exists>media.
                        sent_media c (toLowerCase ty) send = Some media \<and>
                        field media ''id'' = mediaId \<and> field media ''link'' = JUndefined)))"
    proof (cases r)
      case (Inl err)
      from uploadMedia_cases [OF up] Inl
      have "handleApiError ''Error sending media message'' err = err"
        and "net1 = net \<or> net1 = net @ [upload_request c (field options ''filePath'')]"
        by auto
      then show ?thesis
        unfolding unfold using fp up Inl by (simp add: try_catch_def)
    next
      case (Inr mediaId)
      from uploadMedia_cases [OF up] Inr
      have tr: "truthy mediaId"
        and n1: "net1 = net @ [upload_request c (field options ''filePath'')]"
        by auto
      have "\<exists>send.
                 snd (sendMedia e c options net) = net1 @ [send] \<and>
                 (toLowerCase ty \<noteq> ''__proto__'' \<longrightarrow>
                    (\<exists>media.
                        sent_media c (toLowerCase ty) send = Some media \<and>
                        field media ''id'' = mediaId \<and> field media ''link'' = JUndefined))"
      proof (cases "toLowerCase ty = ''__proto__''")
        case True
        have "\<exists>send. snd (sendMedia e c options net) = net1 @ [send]"
          unfolding unfold using fp up Inr tr by (simp add: Let_def)
        with True show ?thesis by blast
      next
        case proto: False
        have "field (JObj (obj_set ?payload (toLowerCase ty) (JObj [(''id'', mediaId)])))
                 (toLowerCase ty) = JObj [(''id'', mediaId)]"
          by (rule field_obj_set_same) (rule proto)
        from send_part [OF this, of "truthy (field options ''caption'')"
            "field options ''caption''"
            "toLowerCase ty = ''document'' \<and> truthy (field options ''filename'')"
            "field options ''filename''" e c net1]
        obtain send media where
          "snd (let payload2 =
                      (if truthy (field options ''caption'')
                       then obj_set_in
                              (obj_set ?payload (toLowerCase ty) (JObj [(''id'', mediaId)]))
                              (toLowerCase ty) ''caption'' (field options ''caption'')
                       else obj_set ?payload (toLowerCase ty) (JObj [(''id'', mediaId)]));
                    payload3 =
                      (if toLowerCase ty = ''document'' \<and> truthy (field options ''filename'')
                       then obj_set_in payload2 (toLowerCase ty) ''filename''
                              (field options ''filename'')
                       else payload2)
                in post_message e c (JObj payload3) net1) = net1 @ [send]"
          and sm: "sent_media c (toLowerCase ty) send = Some media"
          and "field media ''id'' = field (JObj [(''id'', mediaId)]) ''id''"
          and "field media ''link'' = field (JObj [(''id'', mediaId)]) ''link''"
          by blast
        then have "snd (sendMedia e c options net) = net1 @ [send]"
          and "field media ''id'' = mediaId" and "field media ''link'' = JUndefined"
          unfolding unfold using fp up Inr tr by (simp_all add: Let_def)
        with sm show ?thesis by blast
      qed
      with tr n1 show ?thesis using up Inr by auto
    qed
  }
  {
    assume a: "\<not> truthy (field options ''filePath'') \<and> truthy (field options ''url'')"
    show "\<exists>send.
           snd (sendMedia e c options net) = net @ [send] \<and>
           (toLowerCase ty \<noteq> ''__proto__'' \<longrightarrow>
              (\<exists>media.
                  sent_media c (toLowerCase ty) send = Some media \<and>
                  field media ''link'' = field options ''url'' \<and>
                  field media ''id'' = JUndefined))"
    proof (cases "toLowerCase ty = ''__proto__''")
      case True
      have "\<exists>send. snd (sendMedia e c options net) = net @ [send]"
        unfolding unfold using a by (simp add: Let_def)
      with True show ?thesis by blast
    next
      case proto: False
      have "field (JObj (obj_set ?payload (toLowerCase ty)
                 (JObj [(''link'', field options ''url'')])))
                 (toLowerCase ty) = JObj [(''link'', field options ''url'')]"
        by (rule field_obj_set_same) (rule proto)
      from send_part [OF this, of "truthy (field options ''caption'')"
          "field options ''caption''"
          "toLowerCase ty = ''document'' \<and> truthy (field options ''filename'')"
          "field options ''filename''" e c net]
      obtain send media where
        "snd (let payload2 =
                    (if truthy (field options ''caption'')
                     then obj_set_in (obj_set ?payload (toLowerCase ty)
                            (JObj [(''link'', field options ''url'')]))
                            (toLowerCase ty) ''caption'' (field options ''caption'')
                     else obj_set ?payload (toLowerCase ty)
                            (JObj [(''link'', field options ''url'')]));
                  payload3 =
                    (if toLowerCase ty = ''document'' \<and> truthy (field options ''filename'')
                     then obj_set_in payload2 (toLowerCase ty) ''filename''
                            (field options ''filename'')
                     else payload2)
              in post_message e c (JObj payload3) net) = net @ [send]"
        and sm: "sent_media c (toLowerCase ty) send = Some media"
        and "field media ''id'' = field (JObj [(''link'', field options ''url'')]) ''id''"
        and "field media ''link'' = field (JObj [(''link'', field options ''url'')]) ''link''"
        by blast
      then have "snd (sendMedia e c options net) = net @ [send]"
        and "field media ''id'' = JUndefined"
        and "field media ''link'' = field options ''url''"
        unfolding unfold using a by (simp_all add: Let_def)
      with sm show ?thesis by blast
    qed
  }
qed

text \<open>
  C3, as the code has it, for every call of \<open>sendMedia\<close>. When neither a file path nor a
  URL is supplied, the call fails and makes no request; when moreover the recipient and the
  media type are strings, the error is "Either filePath or url must be provided". A call
  whose recipient or media type is not a string fails with a TypeError and makes no request,
  whatever else it supplies. For a call whose recipient and media type are strings: when a
  file path is supplied, the upload is what the call does first; if the upload fails (the
  file does not exist, the request fails or the answer has no id), \<open>sendMedia\<close> fails with
  the same error and sends no message; if it returns a media id, one request follows the
  upload, and, unless the media type in lower case is \<open>__proto__\<close>, that request carries a
  media object whose \<open>id\<close> is that media id and which has no \<open>link\<close>. When only a URL is
  supplied, one request is made, and, unless the media type in lower case is \<open>__proto__\<close>,
  it carries a media object whose \<open>link\<close> is the URL and which has no \<open>id\<close>. So the media
  object of such a message holds exactly one of the two.
\<close>

theorem sendMedia_media_source:
   "(\<not> truthy (field options ''filePath'') \<and> \<not> truthy (field options ''url'') \<longrightarrow>
       (\<exists>err. sendMedia e c options net = (Inl err, net))) \<and>
    ((\<forall>t. get_prop options ''to'' \<noteq> Inr (JStr t)) \<or>
     (\<forall>ty. field options ''type'' \<noteq> JStr ty) \<longrightarrow>
       sendMedia e c options net = (Inl TypeError, net)) \<and>
    (get_prop options ''to'' = Inr (JStr t) \<and> field options ''type'' = JStr ty \<longrightarrow>
    (\<not> truthy (field options ''filePath'') \<and> \<not> truthy (field options ''url'') \<longrightarrow>
       sendMedia e c options net =
         (Inl (Error ''Either filePath or url must be provided''), net)) \<and>
    (truthy (field options ''filePath'') \<longrightarrow>
       (case uploadMedia e c (field options ''filePath'') net of
          (Inl err, net1) \<Rightarrow>
             sendMedia e c options net = (Inl err, net1) \<and>
             (net1 = net \<or> net1 = net @ [upload_request c (field options ''filePath'')])
        | (Inr mediaId, net1) \<Rightarrow>
             truthy mediaId \<and>
             (\<exists>send.
                 snd (sendMedia e c options net) =
                   net @ [upload_request c (field options ''filePath''), send] \<and>
                 (toLowerCase ty \<noteq> ''__proto__'' \<longrightarrow>
                    (\<exists>media.
                        sent_media c (toLowerCase ty) send = Some media \<and>
                        field media ''id'' = mediaId \<and> field media ''link'' = JUndefined))))) \<and>
    (\<not> truthy (field options ''filePath'') \<and> truthy (field options ''url'') \<longrightarrow>
       (\<exists>send.
           snd (sendMedia e c options net) = net @ [send] \<and>
           (toLowerCase ty \<noteq> ''__proto__'' \<longrightarrow>
              (\<exists>media.
                  sent_media c (toLowerCase ty) send = Some media \<and>
                  field media ''link'' = field options ''url'' \<and>
                  field media ''id'' = JUndefined)))))"
proof -
  have neither: "\<not> truthy (field options ''filePath'') \<and> \<not> truthy (field options ''url'') \<longrightarrow>
       (\<exists>err. sendMedia e c options net = (Inl err, net))"
    using sendMedia_neither [of options e c net] by blast
  have untyped: "(\<forall>t. get_prop options ''to'' \<noteq> Inr (JStr t)) \<or>
     (\<forall>ty. field options ''type'' \<noteq> JStr ty) \<longrightarrow>
       sendMedia e c options net = (Inl TypeError, net)"
    by (rule impI, rule sendMedia_untyped)
  have typed: "(get_prop options ''to'' = Inr (JStr t) \<and> field options ''type'' = JStr ty \<longrightarrow>
    (\<not> truthy (field options ''filePath'') \<and> \<not> truthy (field options ''url'') \<longrightarrow>
       sendMedia e c options net =
         (Inl (Error ''Either filePath or url must be provided''), net)) \<and>
    (truthy (field options ''filePath'') \<longrightarrow>
       (case uploadMedia e c (field options ''filePath'') net of
          (Inl err, net1) \<Rightarrow>
             sendMedia e c options net = (Inl err, net1) \<and>
             (net1 = net \<or> net1 = net @ [upload_request c (field options ''filePath'')])
        | (Inr mediaId, net1) \<Rightarrow>
             truthy mediaId \<and>
             (\<exists>send.
                 snd (sendMedia e c options net) =
                   net @ [upload_request c (field options ''filePath''), send] \<and>
                 (toLowerCase ty \<noteq> ''__proto__'' \<longrightarrow>
                    (\<exists>media.
                        sent_media c (toLowerCase ty) send = Some media \<and>
                        field media ''id'' = mediaId \<and> field media ''link'' = JUndefined))))) \<and>
    (\<not> truthy (field options ''filePath'') \<and> truthy (field options ''url'') \<longrightarrow>
       (\<exists>send.
           snd (sendMedia e c options net) = net @ [send] \<and>
           (toLowerCase ty \<noteq> ''__proto__'' \<longrightarrow>
              (\<exists>media.
                  sent_media c (toLowerCase ty) send = Some media \<and>
                  field media ''link'' = field options ''url'' \<and>
                  field media ''id'' = JUndefined)))))"
    by (rule impI, erule conjE, rule sendMedia_typed, assumption+)
  from neither untyped typed show ?thesis
    by - (rule conjI, assumption, rule conjI, assumption, assumption)
qed

theorem sendMedia_media_source_witness:
  "sendMedia example_env example_client
      (JObj [(''to'', JStr ''+4930''), (''type'', JStr ''Image'')]) [] =
     (Inl (Error ''Either filePath or url must be provided''), []) \<and>
   snd (sendMedia example_env example_client
      (JObj [(''to'', JStr ''+4930''), (''type'', JStr ''Image''),
             (''filePath'', JStr ''/tmp/cat.png''), (''url'', JStr ''https://x/cat.png'')]) []) =
     [upload_request example_client (JStr ''/tmp/cat.png''),
      \<lparr> req_method = POST, req_url = ''https://graph.facebook.com/v17.0/1055/messages'',
        req_body = Json (JObj [(''messaging_product'', JStr ''whatsapp''),
                               (''recipient_type'', JStr ''individual''),
                               (''to'', JStr ''4930''),
                               (''type'', JStr ''image''),
                               (''image'', JObj [(''id'', JStr ''media.7'')])]) \<rparr>] \<and>
   snd (sendMedia example_env example_client
      (JObj [(''to'', JStr ''+4930''), (''type'', JStr ''Image''),
             (''url'', JStr ''https://x/cat.png'')]) []) =
     [\<lparr> req_method = POST, req_url = ''https://graph.facebook.com/v17.0/1055/messages'',
        req_body = Json (JObj [(''messaging_product'', JStr ''whatsapp''),
                               (''recipient_type'', JStr ''individual''),
                               (''to'', JStr ''4930''),
                               (''type'', JStr ''image''),
                               (''image'', JObj [(''link'', JStr ''https://x/cat.png'')])]) \<rparr>] \<and>
   sendMedia example_env example_client
      (JObj [(''to'', JNum (Finite 4930)), (''type'', JStr ''Image''),
             (''url'', JStr ''https://x/cat.png'')]) [] = (Inl TypeError, [])"
proof -
  have t1: "get_prop (JObj [(''to'', JStr ''+4930''), (''type'', JStr ''Image'')]) ''to'' =
      Inr (JStr ''+4930'')"
    and t2: "get_prop (JObj [(''to'', JStr ''+4930''), (''type'', JStr ''Image''),
             (''filePath'', JStr ''/tmp/cat.png''), (''url'', JStr ''https://x/cat.png'')]) ''to'' =
      Inr (JStr ''+4930'')"
    and t3: "get_prop (JObj [(''to'', JStr ''+4930''), (''type'', JStr ''Image''),
             (''url'', JStr ''https://x/cat.png'')]) ''to'' = Inr (JStr ''+4930'')"
    by (simp_all add: get_prop_def nullish_def)
  have lower: "toLowerCase ''Image'' \<noteq> ''__proto__''"
    by (simp add: toLowerCase_def lower_char_def)
  have y1: "field (JObj [(''to'', JStr ''+4930''), (''type'', JStr ''Image'')]) ''type'' =
      JStr ''Image''"
    and y2: "field (JObj [(''to'', JStr ''+4930''), (''type'', JStr ''Image''),
             (''filePath'', JStr ''/tmp/cat.png''), (''url'', JStr ''https://x/cat.png'')]) ''type'' =
      JStr ''Image''"
    and y3: "field (JObj [(''to'', JStr ''+4930''), (''type'', JStr ''Image''),
             (''url'', JStr ''https://x/cat.png'')]) ''type'' = JStr ''Image''"
    by simp_all
  from sendMedia_media_source
      [where options = "JObj [(''to'', JStr ''+4930''), (''type'', JStr ''Image'')]"
         and t = "''+4930''" and ty = "''Image''" and e = example_env and c = example_client
         and net = "[]"]
    sendMedia_media_source
      [where options = "JObj [(''to'', JStr ''+4930''), (''type'', JStr ''Image''),
             (''filePath'', JStr ''/tmp/cat.png''), (''url'', JStr ''https://x/cat.png'')]"
         and t = "''+4930''" and ty = "''Image''" and e = example_env and c = example_client
         and net = "[]"]
    sendMedia_media_source
      [where options = "JObj [(''to'', JStr ''+4930''), (''type'', JStr ''Image''),
             (''url'', JStr ''https://x/cat.png'')]"
         and t = "''+4930''" and ty = "''Image''" and e = example_env and c = example_client
         and net = "[]"]
    sendMedia_media_source
      [where options = "JObj [(''to'', JNum (Finite 4930)), (''type'', JStr ''Image''),
             (''url'', JStr ''https://x/cat.png'')]"
         and e = example_env and c = example_client and net = "[]"]
    t1 t2 t3 y1 y2 y3 lower
  show ?thesis
    by (simp add: eval_defs)
qed


text \<open>
  Three calls on which C3 as the specification words it fails: the file does not exist (no
  upload, nothing sent); the recipient is a number (a TypeError before the upload of a file
  that exists); the media type is \<open>__proto__\<close> (the payload sent has no media object).
\<close>

theorem sendMedia_source_counterexample:
  "truthy (field (JObj [(''to'', JStr ''+4930''), (''type'', JStr ''image''),
                        (''filePath'', JStr ''/tmp/missing.png'')]) ''filePath'') \<and>
   sendMedia example_env example_client
      (JObj [(''to'', JStr ''+4930''), (''type'', JStr ''image''),
             (''filePath'', JStr ''/tmp/missing.png'')]) [] =
     (Inl (Error ''File not found: /tmp/missing.png''), []) \<and>
   existsSync example_env ''/tmp/cat.png'' \<and>
   sendMedia example_env example_client
      (JObj [(''to'', JNum (Finite 4930)), (''type'', JStr ''image''),
             (''filePath'', JStr ''/tmp/cat.png'')]) [] =
     (Inl TypeError, []) \<and>
   snd (sendMedia example_env example_client
      (JObj [(''to'', JStr ''+4930''), (''type'', JStr ''__proto__''),
             (''url'', JStr ''https://x/cat.png'')]) []) =
     [\<lparr> req_method = POST, req_url = ''https://graph.facebook.com/v17.0/1055/messages'',
        req_body = Json (JObj [(''messaging_product'', JStr ''whatsapp''),
                               (''recipient_type'', JStr ''individual''),
                               (''to'', JStr ''4930''),
                               (''type'', JStr ''__proto__'')]) \<rparr>]"
  by (simp add: eval_defs)

section \<open>The message id of a send operation\<close>


lemma response_message_id_first:
  assumes "field rdata ''messages'' = JArr (m # ms)" and "\<not> nullish m"
  shows "response_message_id e rdata = Inr (field m ''id'')"
proof -
  have "truthy rdata" using assms(1) by (cases rdata) auto
  then show ?thesis using assms
    by (simp add: response_message_id_def js_gt_zero_def ToNumber_def and_then_def get_prop_def
        del: field.simps) simp
qed

lemma response_message_id_none:
  assumes "field rdata ''messages'' = JArr [] \<or> field rdata ''messages'' = JUndefined"
  shows "response_message_id e rdata = Inr (JStr [])"
  using assms
  by (auto simp add: response_message_id_def js_gt_zero_def ToNumber_def)

lemma try_catch_Inr [simp]: "try_catch m r = (Inr v, s) \<longleftrightarrow> r = (Inr v, s)"
  by (cases r) (auto simp: try_catch_def split: sum.splits)

lemma post_message_Inr:
  assumes "post_message e c payload net = (Inr v, net')"
  shows "\<exists>rdata. answered_with e net' rdata \<and> response_message_id e rdata = Inr v"
  using assms
  by (auto simp: post_message_def http_def answered_with_def split: sum.splits)



lemma sendMessage_Inr:
  "sendMessage e c to message net = (Inr v, net') \<Longrightarrow>
   \<exists>payload. post_message e c payload net = (Inr v, net')"
  by (auto simp: sendMessage_def split: sum.splits)

lemma sendTemplateMessage_Inr:
  "sendTemplateMessage e c options net = (Inr v, net') \<Longrightarrow>
   \<exists>payload. post_message e c payload net = (Inr v, net')"
  by (auto simp: sendTemplateMessage_def Let_def split: sum.splits)

lemma sendInteractiveMessage_Inr:
  "sendInteractiveMessage e c options net = (Inr v, net') \<Longrightarrow>
   \<exists>payload. post_message e c payload net = (Inr v, net')"
  by (auto simp: sendInteractiveMessage_def Let_def split: sum.splits)

lemma sendLocation_Inr:
  "sendLocation e c options net = (Inr v, net') \<Longrightarrow>
   \<exists>payload. post_message e c payload net = (Inr v, net')"
  by (auto simp: sendLocation_def Let_def split: sum.splits)

lemma sendMedia_Inr:
  "sendMedia e c options net = (Inr v, net') \<Longrightarrow>
   \<exists>payload net1. post_message e c payload net1 = (Inr v, net')"
  by (auto simp: sendMedia_def Let_def split: sum.splits if_splits prod.splits)

lemma send_op_Inr:
  assumes "is_send op" and "client_call e op (c, net) = (Inr v, c', net')"
  shows "c' = c \<and> (\<exists>rdata. answered_with e net' rdata \<and> response_message_id e rdata = Inr v)"
proof (cases op)
  case (SendMessage to message)
  with assms(2) have "sendMessage e c to message net = (Inr v, net')" "c' = c"
    by (auto split: prod.splits)
  with sendMessage_Inr post_message_Inr show ?thesis by blast
next
  case (SendTemplateMessage options)
  with assms(2) have "sendTemplateMessage e c options net = (Inr v, net')" "c' = c"
    by (auto split: prod.splits)
  with sendTemplateMessage_Inr post_message_Inr show ?thesis by blast
next
  case (SendMedia options)
  with assms(2) have "sendMedia e c options net = (Inr v, net')" "c' = c"
    by (auto split: prod.splits)
  with sendMedia_Inr post_message_Inr show ?thesis by blast
next
  case (SendInteractiveMessage options)
  with assms(2) have "sendInteractiveMessage e c options net = (Inr v, net')" "c' = c"
    by (auto split: prod.splits)
  with sendInteractiveMessage_Inr post_message_Inr show ?thesis by blast
next
  case (SendLocation options)
  with assms(2) have "sendLocation e c options net = (Inr v, net')" "c' = c"
    by (auto split: prod.splits)
  with sendLocation_Inr post_message_Inr show ?thesis by blast
qed (use assms(1) in simp_all)

lemma on_client_Inr:
  assumes "on_client cl net call wrap = (Inr res, cl', net')"
  shows "\<exists>c v. cl = Some c \<and> cl' = cl \<and> call c = (Inr v, net') \<and> res = wrap v"
  using assms by (auto simp: on_client_def split: option.splits sum.splits prod.splits)

lemma send_method_Inr:
  assumes "mn \<in> set send_methods"
    and "run_method e clock mn params (cl, net) = (Inr res, cl', net')"
  shows "cl' = cl \<and>
     (\<exists>v rdata. answered_with e net' rdata \<and> response_message_id e rdata = Inr v \<and>
        res = JObj [(''success'', JBool True), (''messageId'', v)])"
proof -
  from assms(1) consider "mn = ''send_message''" | "mn = ''send_template''"
    | "mn = ''send_media''" | "mn = ''send_interactive''" | "mn = ''send_location''"
    unfolding send_methods_def by fastforce
  then obtain c v where "cl = Some c" "cl' = cl" "res = success_messageId v"
    and "\<exists>payload net1. post_message e c payload net1 = (Inr v, net')"
  proof cases
    case 1
    with assms(2) have "on_client cl net
        (\<lambda>c. sendMessage e c (par params ''to'') (par params ''message'') net)
        success_messageId = (Inr res, cl', net')"
      by (simp add: run_method_def plugin_sendMessage_def split: if_splits)
    from on_client_Inr [OF this] sendMessage_Inr that show ?thesis by blast
  next
    case 2
    with assms(2) have "on_client cl net (\<lambda>c. sendTemplateMessage e c (JObj params) net)
        success_messageId = (Inr res, cl', net')"
      by (simp add: run_method_def plugin_sendTemplateMessage_def split: if_splits)
    from on_client_Inr [OF this] sendTemplateMessage_Inr that show ?thesis by blast
  next
    case 3
    with assms(2) have "on_client cl net (\<lambda>c. sendMedia e c (JObj params) net)
        success_messageId = (Inr res, cl', net')"
      by (simp add: run_method_def plugin_sendMedia_def split: if_splits)
    from on_client_Inr [OF this] sendMedia_Inr that show ?thesis by blast
  next
    case 4
    with assms(2) have "on_client cl net (\<lambda>c. sendInteractiveMessage e c (JObj params) net)
        success_messageId = (Inr res, cl', net')"
      by (simp add: run_method_def plugin_sendInteractiveMessage_def split: if_splits)
    from on_client_Inr [OF this] sendInteractiveMessage_Inr that show ?thesis by blast
  next
    case 5
    with assms(2) have "on_client cl net (\<lambda>c. sendLocation e c (JObj params) net)
        success_messageId = (Inr res, cl', net')"
      by (simp add: run_method_def plugin_sendLocation_def split: if_splits)
    from on_client_Inr [OF this] sendLocation_Inr that show ?thesis by blast
  qed
  with post_message_Inr show ?thesis
    unfolding success_messageId_def by blast
qed





lemma response_message_id_error:
  "response_message_id e rdata = Inl err \<Longrightarrow> err = TypeError"
  by (cases "field rdata ''messages''"; cases "index0 (field rdata ''messages'')")
     (auto simp: response_message_id_def and_then_def get_prop_def
       split: if_splits sum.splits list.splits)

lemma post_message_answered:
  assumes "respond e net (send_request c payload) = Inr rdata"
  shows "try_catch m (post_message e c payload net) =
     (response_message_id e rdata, net @ [send_request c payload])"
proof (cases "response_message_id e rdata")
  case (Inl err)
  with response_message_id_error have "response_message_id e rdata = Inl TypeError" by blast
  with assms show ?thesis
    by (simp add: post_message_def http_def send_request_def try_catch_def)
next
  case (Inr v)
  with assms show ?thesis
    by (simp add: post_message_def http_def send_request_def try_catch_def)
qed

lemma posts_payload:
  assumes "r = try_catch m (post_message e c (JObj payload) net)"
    and "field (JObj payload) ''to'' = v"
  shows "\<exists>payload. r = try_catch m (post_message e c (JObj payload) net) \<and>
           field (JObj payload) ''to'' = v"
  using assms by blast

lemma sendMessage_posts:
  "\<exists>payload.
     sendMessage e c (JStr t) message net =
       try_catch ''Error sending message'' (post_message e c (JObj payload) net) \<and>
     field (JObj payload) ''to'' = JStr (formatPhoneNumber t)"
  by (rule posts_payload, simp add: sendMessage_def call_formatPhoneNumber_def, simp)

lemma get_prop_field:
  "field options k = JStr t \<Longrightarrow> get_prop options k = Inr (JStr t)"
  by (cases options) (auto simp: get_prop_def nullish_def)

lemma map_of_obj_set_in_other:
  "k' \<noteq> k \<Longrightarrow> map_of (obj_set_in kvs k k2 v) k' = map_of kvs k'"
  by (auto simp: obj_set_in_def update_conv' split: option.splits jsval.splits)

lemma sendTemplateMessage_posts:
  assumes "field options ''to'' = JStr t"
  shows "\<exists>payload.
     sendTemplateMessage e c options net =
       try_catch ''Error sending template message'' (post_message e c (JObj payload) net) \<and>
     field (JObj payload) ''to'' = JStr (formatPhoneNumber t)"
proof -
  define sent where "sent =
          (let payload =
                   [(''messaging_product'', JStr ''whatsapp''),
                    (''recipient_type'', JStr ''individual''),
                    (''to'', JStr (formatPhoneNumber t)),
                    (''type'', JStr ''template''),
                    (''template'',
                       JObj [(''name'', field options ''templateName''),
                             (''language'', JObj [(''code'', field options ''language'')])])];
                 components = field options ''components''
             in if truthy components \<and> js_gt_zero e (field components ''length'')
                then obj_set_in payload ''template'' ''components'' components
                else payload)"
  have "sendTemplateMessage e c options net =
      try_catch ''Error sending template message'' (post_message e c (JObj sent) net)"
    by (simp add: sendTemplateMessage_def sent_def and_then_def call_formatPhoneNumber_def
        get_prop_field [OF assms] Let_def)
  moreover have "field (JObj sent) ''to'' = JStr (formatPhoneNumber t)"
    by (simp add: sent_def Let_def map_of_obj_set_in_other)
  ultimately show ?thesis by blast
qed

lemma sendInteractiveMessage_posts:
  assumes "field options ''to'' = JStr t"
  shows "\<exists>payload.
     sendInteractiveMessage e c options net =
       try_catch ''Error sending interactive message'' (post_message e c (JObj payload) net) \<and>
     field (JObj payload) ''to'' = JStr (formatPhoneNumber t)"
proof -
  define sent where "sent =
          (let payload =
                   [(''messaging_product'', JStr ''whatsapp''),
                    (''recipient_type'', JStr ''individual''),
                    (''to'', JStr (formatPhoneNumber t)),
                    (''type'', JStr ''interactive''),
                    (''interactive'',
                       JObj [(''type'', field options ''type''),
                             (''body'', field options ''body'')])];
                 payload1 =
                   (if truthy (field options ''header'')
                    then obj_set_in payload ''interactive'' ''header'' (field options ''header'')
                    else payload);
                 payload2 =
                   (if truthy (field options ''footer'')
                    then obj_set_in payload1 ''interactive'' ''footer'' (field options ''footer'')
                    else payload1)
             in obj_set_in payload2 ''interactive'' ''action'' (field options ''action''))"
  have "sendInteractiveMessage e c options net =
      try_catch ''Error sending interactive message'' (post_message e c (JObj sent) net)"
    by (simp add: sendInteractiveMessage_def sent_def and_then_def call_formatPhoneNumber_def
        get_prop_field [OF assms] Let_def)
  moreover have "field (JObj sent) ''to'' = JStr (formatPhoneNumber t)"
    by (simp add: sent_def Let_def map_of_obj_set_in_other)
  ultimately show ?thesis by blast
qed

lemma sendLocation_posts:
  assumes "field options ''to'' = JStr t"
  shows "\<exists>payload.
     sendLocation e c options net =
       try_catch ''Error sending location message'' (post_message e c (JObj payload) net) \<and>
     field (JObj payload) ''to'' = JStr (formatPhoneNumber t)"
proof -
  define sent where "sent =
          (let payload =
                   [(''messaging_product'', JStr ''whatsapp''),
                    (''recipient_type'', JStr ''individual''),
                    (''to'', JStr (formatPhoneNumber t)),
                    (''type'', JStr ''location''),
                    (''location'',
                       JObj [(''latitude'', field options ''latitude''),
                             (''longitude'', field options ''longitude'')])];
                 payload1 =
                   (if truthy (field options ''name'')
                    then obj_set_in payload ''location'' ''name'' (field options ''name'')
                    else payload)
             in if truthy (field options ''address'')
                then obj_set_in payload1 ''location'' ''address'' (field options ''address'')
                else payload1)"
  have "sendLocation e c options net =
      try_catch ''Error sending location message'' (post_message e c (JObj sent) net)"
    by (simp add: sendLocation_def sent_def and_then_def call_formatPhoneNumber_def
        get_prop_field [OF assms] Let_def)
  moreover have "field (JObj sent) ''to'' = JStr (formatPhoneNumber t)"
    by (simp add: sent_def Let_def map_of_obj_set_in_other)
  ultimately show ?thesis by blast
qed



lemma uploadMedia_answered:
  assumes "existsSync e p" and "respond e net (upload_request c (JStr p)) = Inr udata"
    and "truthy udata" and "truthy (field udata ''id'')"
  shows "uploadMedia e c (JStr p) net =
     (Inr (field udata ''id''), net @ [upload_request c (JStr p)])"
  using assms by (simp add: uploadMedia_def upload_request_def http_def try_catch_def)

lemma sendMedia_posts_url:
  assumes "field options ''to'' = JStr t" and "field options ''type'' = JStr ty"
    and "\<not> truthy (field options ''filePath'')" and "truthy (field options ''url'')"
  shows "\<exists>payload.
     sendMedia e c options net =
       try_catch ''Error sending media message'' (post_message e c (JObj payload) net)"
  unfolding sendMedia_unfold [OF get_prop_field [OF assms(1)] assms(2)]
  using assms(3,4) by (simp add: Let_def) blast

lemma sendMedia_posts_file:
  assumes "field options ''to'' = JStr t" and "field options ''type'' = JStr ty"
    and "field options ''filePath'' = JStr p" and "p \<noteq> []"
    and "existsSync e p" and "respond e net (upload_request c (JStr p)) = Inr udata"
    and "truthy udata" and "truthy (field udata ''id'')"
  shows "\<exists>payload.
     sendMedia e c options net =
       try_catch ''Error sending media message''
         (post_message e c (JObj payload) (net @ [upload_request c (JStr p)]))"
  unfolding sendMedia_unfold [OF get_prop_field [OF assms(1)] assms(2)]
  using assms(3,4,8) uploadMedia_answered [OF assms(5-8)] by (simp add: Let_def) blast



lemma posted:
  assumes "r = try_catch m (post_message e c payload net)"
  shows "snd r = net @ [send_request c payload]"
    and "respond e net (send_request c payload) = Inr rdata \<Longrightarrow>
         fst r = response_message_id e rdata"
  using assms post_message_answered [of e net c payload rdata m]
  by (simp_all add: send_request_def)

lemma send_op_posts:
  assumes "recipient_of op = JStr t" and "\<not> is_media op"
  shows "\<exists>payload.
     field (JObj payload) ''to'' = JStr (formatPhoneNumber t) \<and>
     snd (client_call e op (c, net)) = (c, net @ [send_request c (JObj payload)]) \<and>
     (\<forall>answer. respond e net (send_request c (JObj payload)) = Inr answer \<longrightarrow>
        fst (client_call e op (c, net)) = response_message_id e answer)"
proof -
  have "\<exists>payload m. field (JObj payload) ''to'' = JStr (formatPhoneNumber t) \<and>
      client_call e op (c, net) =
        (fst (try_catch m (post_message e c (JObj payload) net)), c,
         snd (try_catch m (post_message e c (JObj payload) net)))"
  proof (cases op)
    case (SendMessage to message)
    with assms(1) have to: "to = JStr t" by simp
    from sendMessage_posts [of e c t message net] obtain payload where
      "sendMessage e c (JStr t) message net =
         try_catch ''Error sending message'' (post_message e c (JObj payload) net)"
      "field (JObj payload) ''to'' = JStr (formatPhoneNumber t)" by blast
    then show ?thesis
      unfolding SendMessage to by (simp only: client_call.simps case_prod_beta) blast
  next
    case (SendTemplateMessage options)
    with assms(1) have "field options ''to'' = JStr t" by simp
    from sendTemplateMessage_posts [OF this, of e c net] obtain payload where
      "sendTemplateMessage e c options net =
         try_catch ''Error sending template message'' (post_message e c (JObj payload) net)"
      "field (JObj payload) ''to'' = JStr (formatPhoneNumber t)" by blast
    then show ?thesis
      unfolding SendTemplateMessage by (simp only: client_call.simps case_prod_beta) blast
  next
    case (SendInteractiveMessage options)
    with assms(1) have "field options ''to'' = JStr t" by simp
    from sendInteractiveMessage_posts [OF this, of e c net] obtain payload where
      "sendInteractiveMessage e c options net =
         try_catch ''Error sending interactive message''
           (post_message e c (JObj payload) net)"
      "field (JObj payload) ''to'' = JStr (formatPhoneNumber t)" by blast
    then show ?thesis
      unfolding SendInteractiveMessage by (simp only: client_call.simps case_prod_beta) blast
  next
    case (SendLocation options)
    with assms(1) have "field options ''to'' = JStr t" by simp
    from sendLocation_posts [OF this, of e c net] obtain payload where
      "sendLocation e c options net =
         try_catch ''Error sending location message'' (post_message e c (JObj payload) net)"
      "field (JObj payload) ''to'' = JStr (formatPhoneNumber t)" by blast
    then show ?thesis
      unfolding SendLocation by (simp only: client_call.simps case_prod_beta) blast
  qed (use assms in simp_all)
  then obtain payload m where to: "field (JObj payload) ''to'' = JStr (formatPhoneNumber t)"
    and call: "client_call e op (c, net) =
        (fst (try_catch m (post_message e c (JObj payload) net)), c,
         snd (try_catch m (post_message e c (JObj payload) net)))"
    by blast
  from posted [where r = "try_catch m (post_message e c (JObj payload) net)" and m = m
      and e = e and c = c and payload = "JObj payload" and net = net, OF refl] call
  have "snd (client_call e op (c, net)) = (c, net @ [send_request c (JObj payload)])"
    and "\<forall>answer. respond e net (send_request c (JObj payload)) = Inr answer \<longrightarrow>
        fst (client_call e op (c, net)) = response_message_id e answer"
    by simp_all
  with to show ?thesis by blast
qed

lemma send_media_url_posts:
  assumes "field options ''to'' = JStr t" and "field options ''type'' = JStr ty"
    and "\<not> truthy (field options ''filePath'')" and "truthy (field options ''url'')"
  shows "\<exists>payload.
     snd (client_call e (SendMedia options) (c, net)) =
       (c, net @ [send_request c (JObj payload)]) \<and>
     (\<forall>answer. respond e net (send_request c (JObj payload)) = Inr answer \<longrightarrow>
        fst (client_call e (SendMedia options) (c, net)) = response_message_id e answer)"
proof -
  from sendMedia_posts_url [OF assms, of e c net] obtain payload where
    "sendMedia e c options net =
       try_catch ''Error sending media message'' (post_message e c (JObj payload) net)"
    by blast
  from posted [OF this] show ?thesis
    by (simp only: client_call.simps case_prod_beta fst_conv snd_conv) blast
qed

lemma send_media_file_posts:
  assumes "field options ''to'' = JStr t" and "field options ''type'' = JStr ty"
    and "field options ''filePath'' = JStr p" and "p \<noteq> []"
    and "existsSync e p" and "respond e net (upload_request c (JStr p)) = Inr udata"
    and "truthy udata" and "truthy (field udata ''id'')"
  shows "\<exists>payload.
     snd (client_call e (SendMedia options) (c, net)) =
       (c, net @ [upload_request c (JStr p), send_request c (JObj payload)]) \<and>
     (\<forall>answer. respond e (net @ [upload_request c (JStr p)]) (send_request c (JObj payload)) =
          Inr answer \<longrightarrow>
        fst (client_call e (SendMedia options) (c, net)) = response_message_id e answer)"
proof -
  from sendMedia_posts_file [OF assms] obtain payload where
    "sendMedia e c options net =
       try_catch ''Error sending media message''
         (post_message e c (JObj payload) (net @ [upload_request c (JStr p)]))"
    by blast
  from posted [OF this] show ?thesis
    by (simp only: client_call.simps case_prod_beta fst_conv snd_conv append_assoc
        append.simps) blast
qed

lemma adapter_send:
  "truthy (par params ''to'') \<and> truthy (par params ''message'') \<longrightarrow>
     run_method e clock ''send_message'' params (Some c, net) =
       adapter_result (client_call e
         (SendMessage (par params ''to'') (par params ''message'')) (c, net))"
  "truthy (par params ''to'') \<and> truthy (par params ''templateName'') \<and>
   truthy (par params ''language'') \<longrightarrow>
     run_method e clock ''send_template'' params (Some c, net) =
       adapter_result (client_call e (SendTemplateMessage (JObj params)) (c, net))"
  "truthy (par params ''to'') \<and> truthy (par params ''type'') \<and>
   (truthy (par params ''url'') \<or> truthy (par params ''filePath'')) \<longrightarrow>
     run_method e clock ''send_media'' params (Some c, net) =
       adapter_result (client_call e (SendMedia (JObj params)) (c, net))"
  "truthy (par params ''to'') \<and> truthy (par params ''type'') \<and>
   truthy (par params ''body'') \<and> truthy (par params ''action'') \<longrightarrow>
     run_method e clock ''send_interactive'' params (Some c, net) =
       adapter_result (client_call e (SendInteractiveMessage (JObj params)) (c, net))"
  "truthy (par params ''to'') \<and> par params ''latitude'' \<noteq> JUndefined \<and>
   par params ''longitude'' \<noteq> JUndefined \<longrightarrow>
     run_method e clock ''send_location'' params (Some c, net) =
       adapter_result (client_call e (SendLocation (JObj params)) (c, net))"
  by (auto simp: run_method_def plugin_sendMessage_def plugin_sendTemplateMessage_def
      plugin_sendMedia_def plugin_sendInteractiveMessage_def plugin_sendLocation_def
      on_client_def adapter_result_def success_messageId_def split: prod.splits sum.splits)

text \<open>
  C4. What a send operation returns is what the last lines of the client method make of the
  vendor's answer: the id of the first entry of the answer's message list when the list is
  not empty, the empty string when the answer has no message list or an empty one. Each of
  the send methods of the client, called with a recipient that is a string, posts its request
  to the messages endpoint (\<open>sendMedia\<close> after a successful upload, or at once for a URL)
  and, when the vendor answers that request, returns this value of the answer. Each of the
  five send methods of the adapter, called with its required parameters, calls the client
  method and returns the object with \<open>success: true\<close> and the client's value as
  \<open>messageId\<close>, or the client's error. So a send that succeeds has returned the value of the
  answer to its own last request.
\<close>

theorem send_returns_first_message_id:
  "(field rdata ''messages'' = JArr (m # ms) \<and> \<not> nullish m \<longrightarrow>
      response_message_id e rdata = Inr (field m ''id'')) \<and>
   (field rdata ''messages'' = JArr [] \<or> field rdata ''messages'' = JUndefined \<longrightarrow>
      response_message_id e rdata = Inr (JStr [])) \<and>
   (is_send op \<and> client_call e op (c, net) = (Inr v, c', net') \<longrightarrow>
      (\<exists>answer. answered_with e net' answer \<and> response_message_id e answer = Inr v)) \<and>
   (mn \<in> set send_methods \<and> run_method e clock mn params (cl, net) = (Inr res, cl', net') \<longrightarrow>
      (\<exists>messageId answer.
          answered_with e net' answer \<and> response_message_id e answer = Inr messageId \<and>
          res = JObj [(''success'', JBool True), (''messageId'', messageId)])) \<and>
   (recipient_of op = JStr t \<and> \<not> is_media op \<longrightarrow>
      (\<exists>payload.
          field (JObj payload) ''to'' = JStr (formatPhoneNumber t) \<and>
          snd (client_call e op (c, net)) = (c, net @ [send_request c (JObj payload)]) \<and>
          (\<forall>answer. respond e net (send_request c (JObj payload)) = Inr answer \<longrightarrow>
             fst (client_call e op (c, net)) = response_message_id e answer))) \<and>
   (field options ''to'' = JStr t \<and> field options ''type'' = JStr ty \<and>
    \<not> truthy (field options ''filePath'') \<and> truthy (field options ''url'') \<longrightarrow>
      (\<exists>payload.
          snd (client_call e (SendMedia options) (c, net)) =
            (c, net @ [send_request c (JObj payload)]) \<and>
          (\<forall>answer. respond e net (send_request c (JObj payload)) = Inr answer \<longrightarrow>
             fst (client_call e (SendMedia options) (c, net)) =
               response_message_id e answer))) \<and>
   (field options ''to'' = JStr t \<and> field options ''type'' = JStr ty \<and>
    field options ''filePath'' = JStr p \<and> p \<noteq> [] \<and> existsSync e p \<and>
    respond e net (upload_request c (JStr p)) = Inr udata \<and>
    truthy udata \<and> truthy (field udata ''id'') \<longrightarrow>
      (\<exists>payload.
          snd (client_call e (SendMedia options) (c, net)) =
            (c, net @ [upload_request c (JStr p), send_request c (JObj payload)]) \<and>
          (\<forall>answer.
             respond e (net @ [upload_request c (JStr p)]) (send_request c (JObj payload)) =
               Inr answer \<longrightarrow>
             fst (client_call e (SendMedia options) (c, net)) =
               response_message_id e answer))) \<and>
   (truthy (par params ''to'') \<and> truthy (par params ''message'') \<longrightarrow>
      run_method e clock ''send_message'' params (Some c, net) =
        adapter_result (client_call e
          (SendMessage (par params ''to'') (par params ''message'')) (c, net))) \<and>
   (truthy (par params ''to'') \<and> truthy (par params ''templateName'') \<and>
    truthy (par params ''language'') \<longrightarrow>
      run_method e clock ''send_template'' params (Some c, net) =
        adapter_result (client_call e (SendTemplateMessage (JObj params)) (c, net))) \<and>
   (truthy (par params ''to'') \<and> truthy (par params ''type'') \<and>
    (truthy (par params ''url'') \<or> truthy (par params ''filePath'')) \<longrightarrow>
      run_method e clock ''send_media'' params (Some c, net) =
        adapter_result (client_call e (SendMedia (JObj params)) (c, net))) \<and>
   (truthy (par params ''to'') \<and> truthy (par params ''type'') \<and>
    truthy (par params ''body'') \<and> truthy (par params ''action'') \<longrightarrow>
      run_method e clock ''send_interactive'' params (Some c, net) =
        adapter_result (client_call e (SendInteractiveMessage (JObj params)) (c, net))) \<and>
   (truthy (par params ''to'') \<and> par params ''latitude'' \<noteq> JUndefined \<and>
    par params ''longitude'' \<noteq> JUndefined \<longrightarrow>
      run_method e clock ''send_location'' params (Some c, net) =
        adapter_result (client_call e (SendLocation (JObj params)) (c, net)))"
proof -
  have old: "(field rdata ''messages'' = JArr (m # ms) \<and> \<not> nullish m \<longrightarrow>
      response_message_id e rdata = Inr (field m ''id'')) \<and>
   (field rdata ''messages'' = JArr [] \<or> field rdata ''messages'' = JUndefined \<longrightarrow>
      response_message_id e rdata = Inr (JStr [])) \<and>
   (is_send op \<and> client_call e op (c, net) = (Inr v, c', net') \<longrightarrow>
      (\<exists>answer. answered_with e net' answer \<and> response_message_id e answer = Inr v)) \<and>
   (mn \<in> set send_methods \<and> run_method e clock mn params (cl, net) = (Inr res, cl', net') \<longrightarrow>
      (\<exists>messageId answer.
          answered_with e net' answer \<and> response_message_id e answer = Inr messageId \<and>
          res = JObj [(''success'', JBool True), (''messageId'', messageId)]))"
    using response_message_id_first [of rdata m ms e] response_message_id_none [of rdata e]
      send_op_Inr [of op e c net v c' net']
      send_method_Inr [of mn e clock params cl net res cl' net']
    by blast
  have single: "recipient_of op = JStr t \<and> \<not> is_media op \<longrightarrow>
      (\<exists>payload.
          field (JObj payload) ''to'' = JStr (formatPhoneNumber t) \<and>
          snd (client_call e op (c, net)) = (c, net @ [send_request c (JObj payload)]) \<and>
          (\<forall>answer. respond e net (send_request c (JObj payload)) = Inr answer \<longrightarrow>
             fst (client_call e op (c, net)) = response_message_id e answer))"
    using send_op_posts [of op t e c net] by blast
  have url: "field options ''to'' = JStr t \<and> field options ''type'' = JStr ty \<and>
    \<not> truthy (field options ''filePath'') \<and> truthy (field options ''url'') \<longrightarrow>
      (\<exists>payload.
          snd (client_call e (SendMedia options) (c, net)) =
            (c, net @ [send_request c (JObj payload)]) \<and>
          (\<forall>answer. respond e net (send_request c (JObj payload)) = Inr answer \<longrightarrow>
             fst (client_call e (SendMedia options) (c, net)) =
               response_message_id e answer))"
    using send_media_url_posts [of options t ty e c net] by blast
  have viafile: "field options ''to'' = JStr t \<and> field options ''type'' = JStr ty \<and>
    field options ''filePath'' = JStr p \<and> p \<noteq> [] \<and> existsSync e p \<and>
    respond e net (upload_request c (JStr p)) = Inr udata \<and>
    truthy udata \<and> truthy (field udata ''id'') \<longrightarrow>
      (\<exists>payload.
          snd (client_call e (SendMedia options) (c, net)) =
            (c, net @ [upload_request c (JStr p), send_request c (JObj payload)]) \<and>
          (\<forall>answer.
             respond e (net @ [upload_request c (JStr p)]) (send_request c (JObj payload)) =
               Inr answer \<longrightarrow>
             fst (client_call e (SendMedia options) (c, net)) =
               response_message_id e answer))"
    using send_media_file_posts [of options t ty p e net c udata] by blast
  from old single url viafile adapter_send [of params e clock c net]
  show ?thesis by (intro conjI) (elim conjE, assumption)+
qed

theorem send_returns_first_message_id_witness:
  "response_message_id example_env
      (JObj [(''messages'', JArr [JObj [(''id'', JStr ''wamid.1'')]])]) = Inr (JStr ''wamid.1'') \<and>
   response_message_id example_env (JObj [(''messages'', JArr [])]) = Inr (JStr []) \<and>
   client_call example_env (SendMessage (JStr ''+4930'') (JStr ''hi'')) (example_client, []) =
     (Inr (JStr ''wamid.1''), example_client,
      [\<lparr> req_method = POST, req_url = ''https://graph.facebook.com/v17.0/1055/messages'',
         req_body = Json (JObj [(''messaging_product'', JStr ''whatsapp''),
                                (''recipient_type'', JStr ''individual''),
                                (''to'', JStr ''4930''),
                                (''type'', JStr ''text''),
                                (''text'', JObj [(''body'', JStr ''hi'')])]) \<rparr>]) \<and>
   fst (run_method example_env (0, 0) ''send_message''
      [(''to'', JStr ''+4930''), (''message'', JStr ''hi'')] (Some example_client, [])) =
     Inr (JObj [(''success'', JBool True), (''messageId'', JStr ''wamid.1'')]) \<and>
   client_call example_env
      (SendMedia (JObj [(''to'', JStr ''+4930''), (''type'', JStr ''Image''),
                        (''url'', JStr ''https://x/cat.png'')])) (example_client, []) =
     (Inr (JStr ''wamid.1''), example_client,
      [send_request example_client
         (JObj [(''messaging_product'', JStr ''whatsapp''),
                (''recipient_type'', JStr ''individual''),
                (''to'', JStr ''4930''),
                (''type'', JStr ''image''),
                (''image'', JObj [(''link'', JStr ''https://x/cat.png'')])])]) \<and>
   client_call example_env
      (SendMedia (JObj [(''to'', JStr ''+4930''), (''type'', JStr ''Image''),
                        (''filePath'', JStr ''/tmp/cat.png'')])) (example_client, []) =
     (Inr (JStr ''wamid.1''), example_client,
      [upload_request example_client (JStr ''/tmp/cat.png''),
       send_request example_client
         (JObj [(''messaging_product'', JStr ''whatsapp''),
                (''recipient_type'', JStr ''individual''),
                (''to'', JStr ''4930''),
                (''type'', JStr ''image''),
                (''image'', JObj [(''id'', JStr ''media.7'')])])]) \<and>
   run_method example_env (0, 0) ''send_media''
      [(''to'', JStr ''+4930''), (''type'', JStr ''Image''),
       (''filePath'', JStr ''/tmp/cat.png'')] (Some example_client, []) =
     (Inr (JObj [(''success'', JBool True), (''messageId'', JStr ''wamid.1'')]),
      Some example_client,
      [upload_request example_client (JStr ''/tmp/cat.png''),
       send_request example_client
         (JObj [(''messaging_product'', JStr ''whatsapp''),
                (''recipient_type'', JStr ''individual''),
                (''to'', JStr ''4930''),
                (''type'', JStr ''image''),
                (''image'', JObj [(''id'', JStr ''media.7'')])])])"
proof -
  have call: "client_call example_env (SendMessage (JStr ''+4930'') (JStr ''hi''))
      (example_client, []) =
     (Inr (JStr ''wamid.1''), example_client,
      [\<lparr> req_method = POST, req_url = ''https://graph.facebook.com/v17.0/1055/messages'',
         req_body = Json (JObj [(''messaging_product'', JStr ''whatsapp''),
                                (''recipient_type'', JStr ''individual''),
                                (''to'', JStr ''4930''),
                                (''type'', JStr ''text''),
                                (''text'', JObj [(''body'', JStr ''hi'')])]) \<rparr>])"
    by (simp add: eval_defs)
  have run: "run_method example_env (0, 0) ''send_message''
      [(''to'', JStr ''+4930''), (''message'', JStr ''hi'')] (Some example_client, []) =
     (Inr (JObj [(''success'', JBool True), (''messageId'', JStr ''wamid.1'')]),
      Some example_client,
      [\<lparr> req_method = POST, req_url = ''https://graph.facebook.com/v17.0/1055/messages'',
         req_body = Json (JObj [(''messaging_product'', JStr ''whatsapp''),
                                (''recipient_type'', JStr ''individual''),
                                (''to'', JStr ''4930''),
                                (''type'', JStr ''text''),
                                (''text'', JObj [(''body'', JStr ''hi'')])]) \<rparr>])"
    by (simp add: eval_defs)
  have mem: "''send_message'' \<in> set send_methods" by (simp add: send_methods_def)
  have url: "client_call example_env
      (SendMedia (JObj [(''to'', JStr ''+4930''), (''type'', JStr ''Image''),
                        (''url'', JStr ''https://x/cat.png'')])) (example_client, []) =
     (Inr (JStr ''wamid.1''), example_client,
      [send_request example_client
         (JObj [(''messaging_product'', JStr ''whatsapp''),
                (''recipient_type'', JStr ''individual''),
                (''to'', JStr ''4930''),
                (''type'', JStr ''image''),
                (''image'', JObj [(''link'', JStr ''https://x/cat.png'')])])])"
    by (simp add: eval_defs send_request_def)
  have upload: "client_call example_env
      (SendMedia (JObj [(''to'', JStr ''+4930''), (''type'', JStr ''Image''),
                        (''filePath'', JStr ''/tmp/cat.png'')])) (example_client, []) =
     (Inr (JStr ''wamid.1''), example_client,
      [upload_request example_client (JStr ''/tmp/cat.png''),
       send_request example_client
         (JObj [(''messaging_product'', JStr ''whatsapp''),
                (''recipient_type'', JStr ''individual''),
                (''to'', JStr ''4930''),
                (''type'', JStr ''image''),
                (''image'', JObj [(''id'', JStr ''media.7'')])])])"
    by (simp add: eval_defs send_request_def)
  have adapter: "run_method example_env (0, 0) ''send_media''
      [(''to'', JStr ''+4930''), (''type'', JStr ''Image''),
       (''filePath'', JStr ''/tmp/cat.png'')] (Some example_client, []) =
     adapter_result (client_call example_env
        (SendMedia (JObj [(''to'', JStr ''+4930''), (''type'', JStr ''Image''),
                        (''filePath'', JStr ''/tmp/cat.png'')])) (example_client, []))"
    using send_returns_first_message_id
      [where params = "[(''to'', JStr ''+4930''), (''type'', JStr ''Image''),
                        (''filePath'', JStr ''/tmp/cat.png'')]"
         and e = example_env and clock = "(0, 0)" and c = example_client and net = "[]"]
    by (simp add: par_def)
  from send_returns_first_message_id
      [where rdata = "JObj [(''messages'', JArr [JObj [(''id'', JStr ''wamid.1'')]])]"
         and m = "JObj [(''id'', JStr ''wamid.1'')]" and ms = "[]" and e = example_env
         and op = "SendMessage (JStr ''+4930'') (JStr ''hi'')" and c = example_client
         and net = "[]" and v = "JStr ''wamid.1''" and c' = example_client
         and mn = "''send_message''" and clock = "(0, 0)"
         and params = "[(''to'', JStr ''+4930''), (''message'', JStr ''hi'')]"
         and cl = "Some example_client" and cl' = "Some example_client"
         and t = "''+4930''" and ty = "''Image''"
         and options = "JObj [(''to'', JStr ''+4930''), (''type'', JStr ''Image''),
                              (''url'', JStr ''https://x/cat.png'')]"]
    send_returns_first_message_id
      [where rdata = "JObj [(''messages'', JArr [])]" and e = example_env
         and c = example_client and net = "[]" and t = "''+4930''" and ty = "''Image''"
         and p = "''/tmp/cat.png''"
         and udata = "JObj [(''id'', JStr ''media.7''),
                (''messages'', JArr [JObj [(''id'', JStr ''wamid.1'')]])]"
         and options = "JObj [(''to'', JStr ''+4930''), (''type'', JStr ''Image''),
                              (''filePath'', JStr ''/tmp/cat.png'')]"]
    call run mem url upload adapter
  show ?thesis
    by (simp add: nullish_def response_message_id_def js_gt_zero_def ToNumber_def and_then_def
        get_prop_def adapter_result_def)
qed


section \<open>The contact cache\<close>


lemma getContactInfo_hit:
  assumes "cacheContactSeconds (config c) = Some (Finite secs)"
    and "contactCache c (''contact_'' @ formatPhoneNumber s) = Some entry"
    and "now1 - timestamp entry < secs * 1000"
  shows "getContactInfo c (JStr s) now1 now2 = (Inr (entry_data entry), c)"
  using assms by (simp add: getContactInfo_def call_formatPhoneNumber_def Let_def)

lemma getContactInfo_miss:
  assumes "cacheContactSeconds (config c) = Some (Finite secs)"
    and "contactCache c (''contact_'' @ formatPhoneNumber s) = None \<or>
         (contactCache c (''contact_'' @ formatPhoneNumber s) = Some entry \<and>
          secs * 1000 \<le> now1 - timestamp entry)"
  shows "getContactInfo c (JStr s) now1 now2 =
     (Inr (placeholder_contact (formatPhoneNumber s)),
      c\<lparr> contactCache := (contactCache c)(''contact_'' @ formatPhoneNumber s \<mapsto>
           \<lparr> entry_data = placeholder_contact (formatPhoneNumber s), timestamp = now2 \<rparr>) \<rparr>)"
  using assms
  by (auto simp: getContactInfo_def call_formatPhoneNumber_def Let_def placeholder_contact_def)

lemma lookup_cached_after:
  "\<exists>entry1. contactCache (snd (getContactInfo c (JStr s) now1 now2))
        (''contact_'' @ formatPhoneNumber s) = Some entry1 \<and>
      fst (getContactInfo c (JStr s) now1 now2) = Inr (entry_data entry1)"
  by (auto simp: getContactInfo_def call_formatPhoneNumber_def Let_def
      split: option.splits number.splits if_splits)

lemma getContactInfo_config [simp]:
  "config (snd (getContactInfo c v now1 now2)) = config c"
  by (auto simp: getContactInfo_def call_formatPhoneNumber_def Let_def
      split: option.splits number.splits if_splits jsval.splits)

lemma getContactInfo_keeps_entries:
  "dom (contactCache c) \<subseteq> dom (contactCache (snd (getContactInfo c v now1 now2)))"
  by (auto simp: getContactInfo_def call_formatPhoneNumber_def Let_def
      split: option.splits number.splits if_splits jsval.splits)



text \<open>
  C5, as the code has it. \<open>getContactInfo\<close> looks the normalized number up in the contact cache.
  With a time to live of \<open>secs\<close> seconds, an entry is used when its age is below
  \<open>secs * 1000\<close> milliseconds and is stale when its age is \<open>secs * 1000\<close> or more (the
  specification says: more). On a stale or missing entry the call makes up the placeholder
  contact, which holds the normalized number as \<open>id\<close> and nothing else, stores it with the
  time of the second reading of the clock and returns it. After any call the cache holds an
  entry with the data returned, and a second call while that entry's age is below the time to
  live returns the same data and leaves the cache as it is. No call removes an entry.
\<close>

theorem getContactInfo_cache:
  assumes "cacheContactSeconds (config c) = Some (Finite secs)"
  shows
   "(contactCache c (''contact_'' @ formatPhoneNumber s) = Some entry \<and>
       now1 - timestamp entry < secs * 1000 \<longrightarrow>
       getContactInfo c (JStr s) now1 now2 = (Inr (entry_data entry), c)) \<and>
    (contactCache c (''contact_'' @ formatPhoneNumber s) = None \<or>
       (contactCache c (''contact_'' @ formatPhoneNumber s) = Some entry \<and>
        secs * 1000 \<le> now1 - timestamp entry) \<longrightarrow>
       getContactInfo c (JStr s) now1 now2 =
         (Inr (placeholder_contact (formatPhoneNumber s)),
          c\<lparr> contactCache := (contactCache c)(''contact_'' @ formatPhoneNumber s \<mapsto>
               \<lparr> entry_data = placeholder_contact (formatPhoneNumber s),
                 timestamp = now2 \<rparr>) \<rparr>)) \<and>
    field (placeholder_contact (formatPhoneNumber s)) ''id'' = JStr (formatPhoneNumber s) \<and>
    field (placeholder_contact (formatPhoneNumber s)) ''name'' = JUndefined \<and>
    field (placeholder_contact (formatPhoneNumber s)) ''isBusiness'' = JUndefined \<and>
    field (placeholder_contact (formatPhoneNumber s)) ''profilePictureUrl'' = JUndefined \<and>
    (\<exists>entry1.
        contactCache (snd (getContactInfo c (JStr s) now1 now2))
          (''contact_'' @ formatPhoneNumber s) = Some entry1 \<and>
        fst (getContactInfo c (JStr s) now1 now2) = Inr (entry_data entry1) \<and>
        (later1 - timestamp entry1 < secs * 1000 \<longrightarrow>
           getContactInfo (snd (getContactInfo c (JStr s) now1 now2)) (JStr s) later1 later2 =
             getContactInfo c (JStr s) now1 now2)) \<and>
    dom (contactCache c) \<subseteq> dom (contactCache (snd (getContactInfo c v now1 now2)))"
proof -
  let ?first = "getContactInfo c (JStr s) now1 now2"
  from lookup_cached_after [of c s now1 now2]
  obtain entry1 where e1:
    "contactCache (snd ?first) (''contact_'' @ formatPhoneNumber s) = Some entry1"
    "fst ?first = Inr (entry_data entry1)" by blast
  have ttl: "cacheContactSeconds (config (snd ?first)) = Some (Finite secs)"
    using assms by simp
  have "getContactInfo (snd ?first) (JStr s) later1 later2 = ?first"
    if "later1 - timestamp entry1 < secs * 1000"
    using getContactInfo_hit [OF ttl e1(1) that, of later2] e1(2)
    by (simp add: prod_eq_iff)
  with e1 have second: "\<exists>entry1.
        contactCache (snd ?first) (''contact_'' @ formatPhoneNumber s) = Some entry1 \<and>
        fst ?first = Inr (entry_data entry1) \<and>
        (later1 - timestamp entry1 < secs * 1000 \<longrightarrow>
           getContactInfo (snd ?first) (JStr s) later1 later2 = ?first)"
    by blast
  have fields:
    "field (placeholder_contact (formatPhoneNumber s)) ''id'' = JStr (formatPhoneNumber s)"
    "field (placeholder_contact (formatPhoneNumber s)) ''name'' = JUndefined"
    "field (placeholder_contact (formatPhoneNumber s)) ''isBusiness'' = JUndefined"
    "field (placeholder_contact (formatPhoneNumber s)) ''profilePictureUrl'' = JUndefined"
    by (simp_all add: placeholder_contact_def)
  show ?thesis
    using getContactInfo_hit [OF assms, of s entry now1 now2]
      getContactInfo_miss [OF assms, of s entry now1 now2]
      fields second getContactInfo_keeps_entries [of c v now1 now2]
    by blast
qed

theorem getContactInfo_cache_witness:
  "getContactInfo example_client (JStr ''+4930'') 0 0 =
     (Inr (placeholder_contact ''4930''),
      example_client\<lparr> contactCache := [''contact_4930'' \<mapsto>
         \<lparr> entry_data = placeholder_contact ''4930'', timestamp = 0 \<rparr>] \<rparr>) \<and>
   getContactInfo
     (example_client\<lparr> contactCache := [''contact_4930'' \<mapsto>
         \<lparr> entry_data = placeholder_contact ''4930'', timestamp = 0 \<rparr>] \<rparr>)
     (JStr ''+4930'') 999 999 =
     (Inr (placeholder_contact ''4930''),
      example_client\<lparr> contactCache := [''contact_4930'' \<mapsto>
         \<lparr> entry_data = placeholder_contact ''4930'', timestamp = 0 \<rparr>] \<rparr>)"
proof -
  have ttl: "cacheContactSeconds (config example_client) = Some (Finite 1)"
    by (simp add: example_client_def)
  have f: "formatPhoneNumber ''+4930'' = ''4930''"
    by (simp add: formatPhoneNumber_def startsWith_def substring_def)
  have empty: "contactCache example_client (''contact_'' @ formatPhoneNumber ''+4930'') = None"
    by (simp add: example_client_def)
  have cache: "contactCache example_client = Map.empty"
    by (simp add: example_client_def)
  from getContactInfo_cache [OF ttl, of "''+4930''" _ 0 0 999 999 "JStr ''+4930''"]
    empty f example_first_lookup
  show ?thesis by (simp add: cache)
qed

theorem getContactInfo_boundary_counterexample:
  "\<not> stale_in_spec 1000 \<lparr> entry_data = placeholder_contact ''4930'', timestamp = 0 \<rparr> 1 \<and>
   cacheContactSeconds (config example_client) = Some (Finite 1) \<and>
   getContactInfo
     (example_client\<lparr> contactCache := [''contact_4930'' \<mapsto>
         \<lparr> entry_data = placeholder_contact ''4930'', timestamp = 0 \<rparr>] \<rparr>)
     (JStr ''+4930'') 1000 1001 =
     (Inr (placeholder_contact ''4930''),
      example_client\<lparr> contactCache := [''contact_4930'' \<mapsto>
         \<lparr> entry_data = placeholder_contact ''4930'', timestamp = 1001 \<rparr>] \<rparr>)"
  by (simp add: stale_in_spec_def getContactInfo_def call_formatPhoneNumber_def Let_def
      placeholder_contact_def formatPhoneNumber_def startsWith_def substring_def
      example_client_def)


section \<open>Failed requests\<close>


lemma failed_with_append [simp]:
  "failed_with e net (net @ [r]) err \<longleftrightarrow> respond e net r = Inl err"
  by (simp add: failed_with_def)

lemma failed_with_same [simp]: "\<not> failed_with e net net err"
  by (simp add: failed_with_def)

lemma post_message_failed:
  assumes "post_message e c payload net = (r, net')" and "failed_with e net net' err"
  shows "r = Inl err"
  using assms by (auto simp: post_message_def http_def split: sum.splits)

lemma try_catch_post_message_failed:
  assumes "try_catch m (post_message e c payload net) = (r, net')" and "failed_with e net net' err"
  shows "r = Inl (handleApiError m err)"
proof -
  obtain r0 where r0: "post_message e c payload net = (r0, net')"
    using assms(1) snd_try_catch [of m "post_message e c payload net"]
    by (cases "post_message e c payload net") auto
  from post_message_failed [OF r0 assms(2)] assms(1) r0 show ?thesis
    by (simp add: try_catch_def)
qed

lemma sendMessage_failed:
  assumes "sendMessage e c to message net = (r, net')" and "failed_with e net net' err"
  shows "\<exists>m. r = Inl (handleApiError m err)"
  using assms try_catch_post_message_failed
  by (fastforce simp: sendMessage_def split: sum.splits)

lemma sendTemplateMessage_failed:
  assumes "sendTemplateMessage e c options net = (r, net')" and "failed_with e net net' err"
  shows "\<exists>m. r = Inl (handleApiError m err)"
  using assms try_catch_post_message_failed
  by (fastforce simp: sendTemplateMessage_def Let_def split: sum.splits)

lemma sendInteractiveMessage_failed:
  assumes "sendInteractiveMessage e c options net = (r, net')" and "failed_with e net net' err"
  shows "\<exists>m. r = Inl (handleApiError m err)"
  using assms try_catch_post_message_failed
  by (fastforce simp: sendInteractiveMessage_def Let_def split: sum.splits)

lemma sendLocation_failed:
  assumes "sendLocation e c options net = (r, net')" and "failed_with e net net' err"
  shows "\<exists>m. r = Inl (handleApiError m err)"
  using assms try_catch_post_message_failed
  by (fastforce simp: sendLocation_def Let_def split: sum.splits)

lemma markMessageAsRead_failed:
  assumes "markMessageAsRead e c messageId net = (r, net')" and "failed_with e net net' err"
  shows "\<exists>m. r = Inl (handleApiError m err)"
  using assms
  by (auto simp: markMessageAsRead_def http_def try_catch_def split: sum.splits)

lemma getBusinessProfile_failed:
  assumes "getBusinessProfile e c net = (r, net')" and "failed_with e net net' err"
  shows "\<exists>m. r = Inl (handleApiError m err)"
  using assms
  by (auto simp: getBusinessProfile_def http_def try_catch_def split: sum.splits)

lemma updateBusinessProfile_failed:
  assumes "updateBusinessProfile e c profileData net = (r, net')" and "failed_with e net net' err"
  shows "\<exists>m. r = Inl (handleApiError m err)"
  using assms
  by (auto simp: updateBusinessProfile_def http_def try_catch_def split: sum.splits)

lemma getMediaUrl_failed:
  assumes "getMediaUrl e c mediaId net = (r, net')" and "failed_with e net net' err"
  shows "\<exists>m. r = Inl (handleApiError m err)"
  using assms
  by (auto simp: getMediaUrl_def http_def try_catch_def split: sum.splits if_splits)

lemma uploadMedia_failed:
  assumes "uploadMedia e c filePath net = (r, net')" and "failed_with e net net' err"
  shows "\<exists>m. r = Inl (handleApiError m err)"
  using assms
  by (auto simp: uploadMedia_def http_def try_catch_def split: sum.splits if_splits)



lemma failed_with_last:
  "failed_with e net (net1 @ [r]) err \<Longrightarrow> respond e net1 r = Inl err"
  by (simp add: failed_with_def)

lemma post_message_shape:
  "post_message e c payload net1 = (r, net') \<Longrightarrow>
   \<exists>req. net' = net1 @ [req] \<and> (respond e net1 req = Inl err \<longrightarrow> r = Inl err)"
  by (auto simp: post_message_def http_def split: sum.splits)

lemma uploadMedia_truthy:
  "uploadMedia e c fp net = (Inr mediaId, net1) \<Longrightarrow> truthy mediaId"
  using uploadMedia_cases [of e c fp net "Inr mediaId" net1] by auto

lemma sendMedia_failed:
  assumes "sendMedia e c options net = (r, net')" and "failed_with e net net' err"
  shows "\<exists>m. r = Inl (handleApiError m err)"
proof -
  from assms(1) consider
      (early) "net' = net"
    | (upload) err_u where "truthy (field options ''filePath'')"
        "uploadMedia e c (field options ''filePath'') net = (Inl err_u, net')"
        "r = Inl (handleApiError ''Error sending media message'' err_u)"
    | (post) payload net1 r0 where "post_message e c payload net1 = (r0, net')"
        "try_catch ''Error sending media message'' (r0, net') = (r, net')"
    by (auto simp: sendMedia_def Let_def try_catch_def dest: uploadMedia_truthy
        split: sum.splits if_splits prod.splits)
  then show ?thesis
  proof cases
    case early
    with assms(2) show ?thesis by simp
  next
    case upload
    from uploadMedia_failed [OF upload(2) assms(2)] obtain m
      where "err_u = handleApiError m err" by auto
    with upload(3) show ?thesis by auto
  next
    case post
    from post_message_shape [OF post(1), of err] obtain req
      where "net' = net1 @ [req]" "respond e net1 req = Inl err \<longrightarrow> r0 = Inl err" by blast
    with assms(2) failed_with_last have "r0 = Inl err" by blast
    with post(2) show ?thesis by (auto simp: try_catch_def)
  qed
qed



lemma client_call_failed:
  assumes "client_call e op (c, net) = (r, c', net')" and "failed_with e net net' err"
  shows "\<exists>m. r = Inl (handleApiError m err)"
proof (cases op)
  case (SendMessage to message)
  with assms sendMessage_failed [of e c to message net r net' err] show ?thesis
    by (auto split: prod.splits)
next
  case (SendTemplateMessage options)
  with assms sendTemplateMessage_failed [of e c options net r net' err] show ?thesis
    by (auto split: prod.splits)
next
  case (SendMedia options)
  with assms sendMedia_failed [of e c options net r net' err] show ?thesis
    by (auto split: prod.splits)
next
  case (SendInteractiveMessage options)
  with assms sendInteractiveMessage_failed [of e c options net r net' err] show ?thesis
    by (auto split: prod.splits)
next
  case (SendLocation options)
  with assms sendLocation_failed [of e c options net r net' err] show ?thesis
    by (auto split: prod.splits)
next
  case (MarkMessageAsRead messageId)
  with assms markMessageAsRead_failed [of e c messageId net r net' err] show ?thesis
    by (auto split: prod.splits)
next
  case GetBusinessProfile
  with assms getBusinessProfile_failed [of e c net r net' err] show ?thesis
    by (auto split: prod.splits)
next
  case (UpdateBusinessProfile profileData)
  with assms updateBusinessProfile_failed [of e c profileData net r net' err] show ?thesis
    by (auto split: prod.splits)
next
  case (UploadMedia filePath)
  with assms uploadMedia_failed [of e c filePath net r net' err] show ?thesis
    by (auto split: prod.splits)
next
  case (GetMediaUrl mediaId)
  with assms getMediaUrl_failed [of e c mediaId net r net' err] show ?thesis
    by (auto split: prod.splits)
next
  case (GetContactInfo phoneNumber now1 now2)
  with assms show ?thesis by (auto split: prod.splits)
next
  case IsConfigured
  with assms show ?thesis by auto
qed

lemma toString_js_or: "toString (js_or v (JStr [])) = (if truthy v then toString v else [])"
  by (simp add: js_or_def)

lemma handleApiError_structured:
  assumes "truthy d" and "truthy (field d ''error'')"
  shows "handleApiError m (AxiosError x (Some (Response st d))) =
     Error (m @ '': HTTP '' @ show_int st @ '' - '' @
       (if truthy (field (field d ''error'') ''code'')
        then toString (field (field d ''error'') ''code'') else []) @ '': '' @
       (if truthy (field (field d ''error'') ''message'')
        then toString (field (field d ''error'') ''message'') else []) @
       (if truthy (field (field d ''error'') ''error_subcode'')
        then '' (subcode: '' @ toString (field (field d ''error'') ''error_subcode'') @ '')''
        else []) @
       (if truthy (field (field d ''error'') ''error_user_title'') \<or>
           truthy (field (field d ''error'') ''error_user_msg'')
        then '' - '' @
          (if truthy (field (field d ''error'') ''error_user_title'')
           then toString (field (field d ''error'') ''error_user_title'') else []) @ '': '' @
          (if truthy (field (field d ''error'') ''error_user_msg'')
           then toString (field (field d ''error'') ''error_user_msg'') else [])
        else []))"
  using assms by (simp add: handleApiError_def Let_def toString_js_or)

lemma handleApiError_unstructured:
  assumes "\<not> (truthy d \<and> truthy (field d ''error''))"
  shows "handleApiError m (AxiosError x (Some (Response st d))) =
     Error (m @ '': HTTP '' @ show_int st)"
  using assms by (auto simp: handleApiError_def Let_def)

lemma handleApiError_no_response_any:
  "\<not> has_response err \<Longrightarrow> handleApiError m err = err"
  by (auto simp: has_response_def handleApiError_def split: error.splits option.splits)










section \<open>Construction and initialization\<close>


lemma new_WhatsAppClient_fails:
  assumes "\<not> truthy_str (apiToken (resolve_config e cfg)) \<or>
           \<not> truthy_str (phoneNumberId (resolve_config e cfg))"
  shows "new_WhatsAppClient e cfg = Inl (Error ''WhatsApp API token is required'') \<or>
         new_WhatsAppClient e cfg = Inl (Error ''WhatsApp phone number ID is required'')"
  using assms by (auto simp: new_WhatsAppClient_def Let_def)

lemma new_WhatsAppClient_succeeds:
  assumes "truthy_str (apiToken (resolve_config e cfg))"
    and "truthy_str (phoneNumberId (resolve_config e cfg))"
  shows "\<exists>c. new_WhatsAppClient e cfg = Inr c \<and> config c = resolve_config e cfg \<and>
           isConfigured c \<and> messageCache c = Map.empty \<and> contactCache c = Map.empty"
  using assms by (simp add: new_WhatsAppClient_def Let_def isConfigured_def)

lemma init_fails:
  assumes "new_WhatsAppClient e (Some (whatsAppConfig p)) = Inl err"
  shows "init e p =
     (Inl (Error (''WhatsApp plugin initialization failed: '' @ error_toString err)), p)"
  using assms by (simp add: init_def)

lemma resolve_apiToken:
  "apiToken (resolve_config e cfg) =
     (case cfg of
        Some k \<Rightarrow> if truthy_str (apiToken k) then apiToken k
                  else process_env e ''WHATSAPP_API_TOKEN''
      | None \<Rightarrow> process_env e ''WHATSAPP_API_TOKEN'')"
  by (simp add: resolve_config_def or_str_def opt_field_def truthy_str_def split: option.splits)

lemma resolve_phoneNumberId:
  "phoneNumberId (resolve_config e cfg) =
     (case cfg of
        Some k \<Rightarrow> if truthy_str (phoneNumberId k) then phoneNumberId k
                  else process_env e ''WHATSAPP_PHONE_NUMBER_ID''
      | None \<Rightarrow> process_env e ''WHATSAPP_PHONE_NUMBER_ID'')"
  by (simp add: resolve_config_def or_str_def opt_field_def truthy_str_def split: option.splits)

text \<open>
  C7. The access token and the phone-number id are resolved from the explicit configuration
  when it gives a non-empty value and from the process environment otherwise. When either is
  empty after that, the constructor of the client throws, and \<open>init\<close> fails with an error whose
  message starts with "WhatsApp plugin initialization failed: " and leaves the plugin as it
  was: no client is set and no tool has run. When both are non-empty, the constructor returns
  a client with the resolved configuration.
\<close>

theorem construction_requires_credentials:
  "(\<not> truthy_str (apiToken (resolve_config e cfg)) \<or>
    \<not> truthy_str (phoneNumberId (resolve_config e cfg)) \<longrightarrow>
      (\<exists>msg. new_WhatsAppClient e cfg = Inl (Error msg))) \<and>
   (truthy_str (apiToken (resolve_config e cfg)) \<and>
    truthy_str (phoneNumberId (resolve_config e cfg)) \<longrightarrow>
      (\<exists>c. new_WhatsAppClient e cfg = Inr c \<and> config c = resolve_config e cfg \<and>
           isConfigured c)) \<and>
   (\<not> truthy_str (apiToken (resolve_config e (Some (whatsAppConfig p)))) \<or>
    \<not> truthy_str (phoneNumberId (resolve_config e (Some (whatsAppConfig p)))) \<longrightarrow>
      (\<exists>msg. init e p =
         (Inl (Error (''WhatsApp plugin initialization failed: '' @ msg)), p))) \<and>
   apiToken (resolve_config e cfg) =
     (case cfg of
        Some k \<Rightarrow> if truthy_str (apiToken k) then apiToken k
                  else process_env e ''WHATSAPP_API_TOKEN''
      | None \<Rightarrow> process_env e ''WHATSAPP_API_TOKEN'') \<and>
   phoneNumberId (resolve_config e cfg) =
     (case cfg of
        Some k \<Rightarrow> if truthy_str (phoneNumberId k) then phoneNumberId k
                  else process_env e ''WHATSAPP_PHONE_NUMBER_ID''
      | None \<Rightarrow> process_env e ''WHATSAPP_PHONE_NUMBER_ID'')"
proof -
  have a: "\<not> truthy_str (apiToken (resolve_config e cfg)) \<or>
      \<not> truthy_str (phoneNumberId (resolve_config e cfg)) \<longrightarrow>
      (\<exists>msg. new_WhatsAppClient e cfg = Inl (Error msg))" for cfg
    using new_WhatsAppClient_fails [of e cfg] by blast
  have b: "truthy_str (apiToken (resolve_config e cfg)) \<and>
      truthy_str (phoneNumberId (resolve_config e cfg)) \<longrightarrow>
      (\<exists>c. new_WhatsAppClient e cfg = Inr c \<and> config c = resolve_config e cfg \<and>
           isConfigured c)"
    using new_WhatsAppClient_succeeds [of e cfg] by blast
  have c: "\<not> truthy_str (apiToken (resolve_config e (Some (whatsAppConfig p)))) \<or>
      \<not> truthy_str (phoneNumberId (resolve_config e (Some (whatsAppConfig p)))) \<longrightarrow>
      (\<exists>msg. init e p =
         (Inl (Error (''WhatsApp plugin initialization failed: '' @ msg)), p))"
    using a [of "Some (whatsAppConfig p)"] init_fails [of e p] by blast
  from a [of cfg] b c resolve_apiToken [of e cfg] resolve_phoneNumberId [of e cfg]
  show ?thesis by blast
qed

lemma whatsAppConfig_initializeTools [simp]:
  "whatsAppConfig (initializeTools p) = whatsAppConfig p"
  by (simp add: initializeTools_def Let_def)

theorem construction_requires_credentials_witness:
  "new_WhatsAppClient example_env None = Inl (Error ''WhatsApp API token is required'') \<and>
   new_WhatsAppClient example_env (Some (example_config\<lparr> phoneNumberId := Some [] \<rparr>)) =
     Inl (Error ''WhatsApp phone number ID is required'') \<and>
   new_WhatsAppClient example_env (Some example_config) = Inr example_client \<and>
   init example_env (new_WhatsAppPlugin example_env None) =
     (Inl (Error
        ''WhatsApp plugin initialization failed: Error: WhatsApp API token is required''),
      new_WhatsAppPlugin example_env None)"
proof -
  have none: "\<not> truthy_str (apiToken (resolve_config example_env None))"
    by (simp add: resolve_config_def or_str_def opt_field_def truthy_str_def example_env_def)
  have both: "truthy_str (apiToken (resolve_config example_env (Some example_config))) \<and>
      truthy_str (phoneNumberId (resolve_config example_env (Some example_config)))"
    by (simp add: resolve_config_def or_str_def opt_field_def truthy_str_def example_env_def
        example_config_def)
  have plugin: "whatsAppConfig (new_WhatsAppPlugin example_env None) =
      \<lparr> apiVersion = None, apiToken = None, phoneNumberId = None, businessAccountId = None,
        cacheMessageSeconds = None, cacheContactSeconds = None, requestTimeout = None \<rparr>"
    by (simp add: new_WhatsAppPlugin_def example_env_def)
  from construction_requires_credentials [of example_env None "new_WhatsAppPlugin example_env None"]
    construction_requires_credentials [of example_env "Some example_config"]
    none both plugin
  show ?thesis
    by (simp add: new_WhatsAppClient_def init_def resolve_config_def or_str_def or_num_def
        opt_field_def truthy_str_def truthy_num_def env_number_def example_env_def
        example_config_def example_client_def str_of_def Let_def)
qed


section \<open>The tool map\<close>


lemma length_delete_distinct:
  "distinct (map fst al) \<Longrightarrow> map_of al k \<noteq> None \<Longrightarrow>
   Suc (length (AList.delete k al)) = length al"
  by (induction al) (auto simp: delete_id rev_image_eqI split: if_splits)

lemma length_update_new:
  "map_of al k = None \<Longrightarrow> length (AList.update k v al) = Suc (length al)"
  by (induction al) (auto split: if_splits)

lemma length_update_old:
  "map_of al k \<noteq> None \<Longrightarrow> length (AList.update k v al) = length al"
  by (induction al) (auto split: if_splits)

lemma tools_wf_foldl_update:
  "distinct (map fst ts) \<Longrightarrow>
   distinct (map fst (foldl (\<lambda>ts m. AList.update (f m) (g m) ts) ts ms))"
  by (induction ms arbitrary: ts) (simp_all add: distinct_update)

lemma tools_wf_initializeTools: "tools_wf p \<Longrightarrow> tools_wf (initializeTools p)"
  by (simp add: tools_wf_def initializeTools_def Let_def tools_wf_foldl_update)

lemma tools_wf_new: "tools_wf (new_WhatsAppPlugin e cfg)"
  unfolding new_WhatsAppPlugin_def by (rule tools_wf_initializeTools) (simp add: tools_wf_def)

lemma tools_wf_registerTool: "tools_wf p \<Longrightarrow> tools_wf (registerTool t p)"
  by (simp add: tools_wf_def registerTool_def distinct_update)

lemma tools_wf_removeTool: "tools_wf p \<Longrightarrow> tools_wf (snd (removeTool n p))"
  by (simp add: tools_wf_def removeTool_def Let_def distinct_delete)

lemma tools_wf_init: "tools_wf p \<Longrightarrow> tools_wf (snd (init e p))"
  by (auto simp: init_def Let_def tools_wf_def initializeTools_def tools_wf_foldl_update
      split: sum.splits)

lemma in_step_initializeTools: "in_step (initializeTools p)"
  by (simp add: in_step_def initializeTools_def Let_def)

lemma in_step_removeTool: "in_step (snd (removeTool n p))"
  by (simp add: in_step_def removeTool_def Let_def)

lemma in_step_new: "in_step (new_WhatsAppPlugin e cfg)"
  unfolding new_WhatsAppPlugin_def by (rule in_step_initializeTools)

lemma executeTool_not_found:
  "getTool p n = None \<Longrightarrow>
   executeTool e clock n params (p, net) =
     (Inl (Error (''Tool '' @ n @ '' not found'')), p, net)"
  by (simp add: executeTool_def)

lemma removeTool_registered:
  assumes "hasTool p n"
  shows "fst (removeTool n p) = True"
    and "getTool (snd (removeTool n p)) n = None"
    and "\<not> hasTool (snd (removeTool n p)) n"
    and "config_tools (snd (removeTool n p)) = getTools (snd (removeTool n p))"
    and "tools_wf p \<Longrightarrow> Suc (length (config_tools (snd (removeTool n p)))) = getToolCount p"
  using assms
  by (simp_all add: removeTool_def hasTool_def getTool_def getTools_def getToolCount_def
      Let_def map_of_delete tools_wf_def length_delete_distinct delete_notin_dom
      map_of_eq_None_iff)

lemma removeTool_in_step:
  assumes "hasTool p n" and "tools_wf p" and "in_step p"
  shows "Suc (length (config_tools (snd (removeTool n p)))) = length (config_tools p)"
  using removeTool_registered(5) [OF assms(1,2)] assms(3)
  by (simp add: in_step_def getToolCount_def)



lemma update_new_key:
  "k \<notin> fst ` set al \<Longrightarrow> AList.update k v al = al @ [(k, v)]"
  by (induction al) auto

lemma keys_foldl_update:
  "distinct (map f ms) \<Longrightarrow> f ` set ms \<inter> fst ` set ts = {} \<Longrightarrow>
   map fst (foldl (\<lambda>ts m. AList.update (f m) (g m) ts) ts ms) = map fst ts @ map f ms"
proof (induction ms arbitrary: ts)
  case Nil
  show ?case by simp
next
  case (Cons a ms)
  from Cons.prems have new: "f a \<notin> fst ` set ts" by auto
  then have upd: "AList.update (f a) (g a) ts = ts @ [(f a, g a)]" by (rule update_new_key)
  from Cons.prems have "distinct (map f ms)"
    and "f ` set ms \<inter> fst ` set (ts @ [(f a, g a)]) = {}" by auto
  from Cons.IH [OF this] upd show ?case by simp
qed

lemma keys_new_plugin:
  "map fst (tools (new_WhatsAppPlugin e cfg)) = map m_name getChatManifests"
  using keys_foldl_update [OF manifest_names_distinct, of "[]"]
  by (simp add: new_WhatsAppPlugin_def initializeTools_def Let_def)

lemma manifest_names:
  "map m_name getChatManifests =
     [''whatsapp_send_message'', ''whatsapp_send_template'', ''whatsapp_send_media'',
      ''whatsapp_send_interactive'', ''whatsapp_send_location'', ''whatsapp_mark_as_read'',
      ''whatsapp_get_contact_info'', ''whatsapp_get_business_profile'',
      ''whatsapp_update_business_profile'']"
proof -
  have "map m_name getChatManifests =
      map fst (map (\<lambda>m. (m_name m, m_required m)) getChatManifests)"
    by simp
  then show ?thesis unfolding manifest_catalog by simp
qed

lemma count_new_plugin:
  "getToolCount (new_WhatsAppPlugin e cfg) = 9"
  "length (config_tools (new_WhatsAppPlugin e cfg)) = 9"
proof -
  have "length (map fst (tools (new_WhatsAppPlugin e cfg))) = 9"
    unfolding keys_new_plugin manifest_names by simp
  then show "getToolCount (new_WhatsAppPlugin e cfg) = 9"
    by (simp add: getToolCount_def)
  with in_step_new [of e cfg] show "length (config_tools (new_WhatsAppPlugin e cfg)) = 9"
    by (simp add: in_step_def getToolCount_def)
qed

lemma echo_not_in_new_plugin: "\<not> hasTool (new_WhatsAppPlugin e cfg) ''echo''"
proof -
  have "''echo'' \<notin> set (map fst (tools (new_WhatsAppPlugin e cfg)))"
    unfolding keys_new_plugin manifest_names by simp
  then show ?thesis
    by (simp add: hasTool_def map_of_eq_None_iff)
qed

lemma registerTool_lookup:
  "getTool (registerTool t p) (tool_name t) = Some t"
  "hasTool (registerTool t p) (tool_name t)"
  "config_tools (registerTool t p) = config_tools p"
  "client (registerTool t p) = client p"
  "getToolCount (registerTool t p) =
     (if hasTool p (tool_name t) then getToolCount p else Suc (getToolCount p))"
  by (simp_all add: registerTool_def getTool_def hasTool_def getToolCount_def update_conv'
      length_update_new length_update_old)

lemma registerTool_out_of_step:
  assumes "in_step p" and "\<not> hasTool p (tool_name t)"
  shows "\<not> in_step (registerTool t p)"
proof
  assume "in_step (registerTool t p)"
  then have "length (config_tools (registerTool t p)) = getToolCount (registerTool t p)"
    by (simp add: in_step_def getToolCount_def)
  moreover have "length (config_tools (registerTool t p)) = getToolCount p"
    using assms(1) by (simp add: registerTool_lookup(3) in_step_def getToolCount_def)
  moreover have "getToolCount (registerTool t p) = Suc (getToolCount p)"
    using assms(2) by (simp add: registerTool_lookup(5))
  ultimately show False by simp
qed



lemma executeTool_config_tools:
  "config_tools (fst (snd (executeTool e clock n params (p, net)))) = config_tools p"
  by (simp add: executeTool_def split: option.splits prod.splits)

lemma executeTool_registered:
  "executeTool e clock (tool_name t) params (registerTool t p, net) =
     (case execute e clock (tool_execute t) params (client p, net) of
        (r, cl', net') \<Rightarrow> (r, (registerTool t p)\<lparr> client := cl' \<rparr>, net'))"
  by (simp add: executeTool_def registerTool_lookup)

lemma init_config_tools:
  "(\<forall>u. fst (init e p) \<noteq> Inr u) \<longrightarrow> config_tools (snd (init e p)) = config_tools p"
  "(\<exists>u. fst (init e p) = Inr u) \<longrightarrow> in_step (snd (init e p))"
  by (auto simp: init_def Let_def in_step_initializeTools split: sum.splits)


section \<open>Removing a tool\<close>

text \<open>
  C8 at a concrete input: a tool is registered on a new plugin and removed again. The exposed
  tool list has nine entries before \<open>removeTool\<close> and nine after it, although the tool was
  registered and \<open>removeTool\<close> returns true.
\<close>

theorem removeTool_after_registerTool:
  "hasTool (registerTool example_tool (new_WhatsAppPlugin example_env None)) ''echo'' \<and>
   fst (removeTool ''echo'' (registerTool example_tool (new_WhatsAppPlugin example_env None))) \<and>
   length (config_tools (registerTool example_tool (new_WhatsAppPlugin example_env None))) = 9 \<and>
   length (config_tools (snd (removeTool ''echo''
      (registerTool example_tool (new_WhatsAppPlugin example_env None))))) = 9"
proof -
  let ?p = "new_WhatsAppPlugin example_env None"
  have name: "tool_name example_tool = ''echo''" by (simp add: example_tool_def)
  have has: "hasTool (registerTool example_tool ?p) ''echo''"
    using registerTool_lookup(2) [of example_tool ?p] name by simp
  have wf: "tools_wf (registerTool example_tool ?p)"
    by (rule tools_wf_registerTool) (rule tools_wf_new)
  have "getToolCount (registerTool example_tool ?p) = 10"
    using registerTool_lookup(5) [of example_tool ?p] name
      echo_not_in_new_plugin [of example_env None] count_new_plugin(1) [of example_env None]
    by simp
  with removeTool_registered(5) [OF has wf]
  have after: "length (config_tools (snd (removeTool ''echo'' (registerTool example_tool ?p)))) = 9"
    by simp
  have before: "length (config_tools (registerTool example_tool ?p)) = 9"
    by (simp add: registerTool_lookup count_new_plugin)
  from has removeTool_registered(1) [OF has] before after show ?thesis by simp
qed


section \<open>The message cache\<close>


lemma endpoint_messageCache [simp]: "endpoint (c\<lparr> messageCache := m \<rparr>) path = endpoint c path"
  by (simp add: endpoint_def)

lemma post_message_messageCache [simp]:
  "post_message e (c\<lparr> messageCache := m \<rparr>) payload net = post_message e c payload net"
  by (simp add: post_message_def)

lemma uploadMedia_messageCache [simp]:
  "uploadMedia e (c\<lparr> messageCache := m \<rparr>) filePath net = uploadMedia e c filePath net"
  by (simp add: uploadMedia_def)

lemma getContactInfo_messageCache:
  "getContactInfo (c\<lparr> messageCache := m \<rparr>) phoneNumber now1 now2 =
     (case getContactInfo c phoneNumber now1 now2 of (r, c') \<Rightarrow> (r, c'\<lparr> messageCache := m \<rparr>))"
  by (simp add: getContactInfo_def Let_def split: sum.splits option.splits number.splits)

lemma send_messageCache [simp]:
  "sendMessage e (c\<lparr> messageCache := m \<rparr>) to message net = sendMessage e c to message net"
  "sendTemplateMessage e (c\<lparr> messageCache := m \<rparr>) options net =
     sendTemplateMessage e c options net"
  "sendInteractiveMessage e (c\<lparr> messageCache := m \<rparr>) options net =
     sendInteractiveMessage e c options net"
  "sendLocation e (c\<lparr> messageCache := m \<rparr>) options net = sendLocation e c options net"
  by (simp_all add: sendMessage_def sendTemplateMessage_def sendInteractiveMessage_def
      sendLocation_def split: sum.splits)

lemma sendMedia_messageCache [simp]:
  "sendMedia e (c\<lparr> messageCache := m \<rparr>) options net = sendMedia e c options net"
  by (simp add: sendMedia_def Let_def split: sum.splits prod.splits)

lemma other_messageCache [simp]:
  "markMessageAsRead e (c\<lparr> messageCache := m \<rparr>) messageId net =
     markMessageAsRead e c messageId net"
  "getBusinessProfile e (c\<lparr> messageCache := m \<rparr>) net = getBusinessProfile e c net"
  "updateBusinessProfile e (c\<lparr> messageCache := m \<rparr>) profileData net =
     updateBusinessProfile e c profileData net"
  "getMediaUrl e (c\<lparr> messageCache := m \<rparr>) mediaId net = getMediaUrl e c mediaId net"
  by (simp_all add: markMessageAsRead_def getBusinessProfile_def updateBusinessProfile_def
      getMediaUrl_def)

lemma client_call_ignores_messageCache:
  "client_call e op (c\<lparr> messageCache := m \<rparr>, net) =
     (case client_call e op (c, net) of (r, c', net') \<Rightarrow> (r, c'\<lparr> messageCache := m \<rparr>, net'))"
proof (cases op)
  case (GetContactInfo phoneNumber now1 now2)
  then show ?thesis by (simp add: getContactInfo_messageCache split: prod.splits)
next
  case IsConfigured
  then show ?thesis by (simp add: isConfigured_def)
qed (simp_all split: prod.splits)

lemma getContactInfo_keeps_messageCache [simp]:
  "messageCache (snd (getContactInfo c phoneNumber now1 now2)) = messageCache c"
  by (simp add: getContactInfo_def Let_def split: sum.splits option.splits number.splits)

lemma client_call_other:
  "\<not> is_contact_lookup op \<Longrightarrow> fst (snd (client_call e op (c, net))) = c"
  by (cases op) (simp_all split: prod.splits)

lemma client_call_keeps_messageCache:
  "messageCache (fst (snd (client_call e op s))) = messageCache (fst s)"
proof (cases s)
  case (Pair c net)
  show ?thesis
  proof (cases "is_contact_lookup op")
    case True
    then obtain phoneNumber now1 now2 where "op = GetContactInfo phoneNumber now1 now2"
      by (cases op) auto
    moreover have "messageCache c' = messageCache c"
      if "getContactInfo c phoneNumber now1 now2 = (r, c')" for r c'
      using getContactInfo_keeps_messageCache [of c phoneNumber now1 now2] that by simp
    ultimately show ?thesis using Pair by (auto split: prod.splits)
  next
    case False
    with Pair client_call_other show ?thesis by simp
  qed
qed

lemma client_calls_keep_messageCache:
  "messageCache (fst (client_calls e ops s)) = messageCache (fst s)"
proof (induction ops arbitrary: s)
  case Nil
  show ?case by simp
next
  case (Cons op ops)
  have "messageCache (fst (client_calls e (op # ops) s)) =
        messageCache (fst (snd (client_call e op s)))"
    using Cons.IH [of "snd (client_call e op s)"] by simp
  then show ?case by (simp add: client_call_keeps_messageCache)
qed

text \<open>
  C9. No operation of the client writes the message cache: after any sequence of operations
  it is what it was, and on a client that the constructor returned it is empty. No operation
  reads it either: with another message cache every operation returns the same result, makes
  the same requests and leaves the same contact cache. The contact cache starts empty, and
  every operation other than \<open>getContactInfo\<close> leaves the whole client as it was.
\<close>

theorem messageCache_dead:
  "(new_WhatsAppClient e cfg = Inr c0 \<longrightarrow>
      messageCache (fst (client_calls e ops (c0, net))) = Map.empty \<and>
      contactCache c0 = Map.empty) \<and>
   messageCache (fst (client_calls e ops (c, net))) = messageCache c \<and>
   client_call e op (c\<lparr> messageCache := m \<rparr>, net) =
     (case client_call e op (c, net) of (r, c', net') \<Rightarrow> (r, c'\<lparr> messageCache := m \<rparr>, net')) \<and>
   (\<not> is_contact_lookup op \<longrightarrow> fst (snd (client_call e op (c, net))) = c)"
proof -
  have "messageCache c0 = Map.empty \<and> contactCache c0 = Map.empty"
    if "new_WhatsAppClient e cfg = Inr c0"
    using that by (auto simp: new_WhatsAppClient_def Let_def split: if_splits)
  then show ?thesis
    using client_calls_keep_messageCache [of e ops "(c0, net)"]
      client_calls_keep_messageCache [of e ops "(c, net)"]
      client_call_ignores_messageCache [where e = e and op = op and c = c and m = m and net = net]
      client_call_other [where e = e and op = op and c = c and net = net]
    by simp
qed



theorem messageCache_dead_witness:
  "new_WhatsAppClient example_env (Some example_config) = Inr example_client \<and>
   messageCache (fst (client_calls example_env
      [SendMessage (JStr ''+4930'') (JStr ''hi''), GetContactInfo (JStr ''+4930'') 0 0]
      (example_client, []))) = Map.empty \<and>
   contactCache (fst (client_calls example_env
      [SendMessage (JStr ''+4930'') (JStr ''hi''), GetContactInfo (JStr ''+4930'') 0 0]
      (example_client, []))) =
     [''contact_4930'' \<mapsto> \<lparr> entry_data = placeholder_contact ''4930'', timestamp = 0 \<rparr>] \<and>
   fst (snd (client_call example_env (SendMessage (JStr ''+4930'') (JStr ''hi''))
      (example_client, []))) = example_client"
proof -
  have new: "new_WhatsAppClient example_env (Some example_config) = Inr example_client"
    by (simp add: new_WhatsAppClient_def resolve_config_def or_str_def or_num_def
        opt_field_def truthy_str_def truthy_num_def env_number_def example_env_def
        example_config_def example_client_def str_of_def Let_def)
  have other: "\<not> is_contact_lookup (SendMessage (JStr ''+4930'') (JStr ''hi''))" by simp
  have sent: "client_call example_env (SendMessage (JStr ''+4930'') (JStr ''hi''))
      (example_client, []) =
     (Inr (JStr ''wamid.1''), example_client,
      [\<lparr> req_method = POST, req_url = ''https://graph.facebook.com/v17.0/1055/messages'',
         req_body = Json (JObj [(''messaging_product'', JStr ''whatsapp''),
                                (''recipient_type'', JStr ''individual''),
                                (''to'', JStr ''4930''),
                                (''type'', JStr ''text''),
                                (''text'', JObj [(''body'', JStr ''hi'')])]) \<rparr>])"
    by (simp add: eval_defs)
  have empty: "messageCache example_client = Map.empty"
    by (simp add: example_client_def)
  have lookup: "getContactInfo example_client (JStr ''+4930'') 0 0 =
     (Inr (placeholder_contact ''4930''),
      example_client\<lparr> contactCache := [''contact_4930'' \<mapsto>
         \<lparr> entry_data = placeholder_contact ''4930'', timestamp = 0 \<rparr>] \<rparr>)"
    by (rule example_first_lookup)
  from messageCache_dead
      [where e = example_env and cfg = "Some example_config" and ?c0.0 = example_client
         and ops = "[SendMessage (JStr ''+4930'') (JStr ''hi''),
                     GetContactInfo (JStr ''+4930'') 0 0]"
         and net = "[]" and c = example_client
         and op = "SendMessage (JStr ''+4930'') (JStr ''hi'')"]
    new other sent lookup empty
  show ?thesis by simp
qed


section \<open>Registering a tool\<close>

text \<open>
  C10. \<open>registerTool\<close> puts the tool into the tool map, where \<open>getTool\<close>, \<open>hasTool\<close>,
  \<open>getToolCount\<close> and \<open>executeTool\<close> find it, and leaves the exposed tool list as it was, so
  that a list that was in step with the map is out of step after a tool with a new name is
  registered. \<open>initializeTools\<close> (which the constructor and a successful \<open>init\<close> run) and
  \<open>removeTool\<close> bring the list in step with the map; \<open>cleanupAll\<close>, \<open>executeTool\<close> and a
  failing \<open>init\<close> leave the list as it was.
\<close>

theorem registerTool_not_exposed:
  "getTool (registerTool t p) (tool_name t) = Some t \<and>
   hasTool (registerTool t p) (tool_name t) \<and>
   getToolCount (registerTool t p) =
     (if hasTool p (tool_name t) then getToolCount p else Suc (getToolCount p)) \<and>
   executeTool e clock (tool_name t) params (registerTool t p, net) =
     (case execute e clock (tool_execute t) params (client p, net) of
        (r, cl', net') \<Rightarrow> (r, (registerTool t p)\<lparr> client := cl' \<rparr>, net')) \<and>
   config_tools (registerTool t p) = config_tools p \<and>
   (in_step p \<and> \<not> hasTool p (tool_name t) \<longrightarrow> \<not> in_step (registerTool t p)) \<and>
   in_step (initializeTools p) \<and>
   in_step (new_WhatsAppPlugin e cfg) \<and>
   in_step (snd (removeTool n p)) \<and>
   ((\<exists>u. fst (init e p) = Inr u) \<longrightarrow> in_step (snd (init e p))) \<and>
   ((\<forall>u. fst (init e p) \<noteq> Inr u) \<longrightarrow> config_tools (snd (init e p)) = config_tools p) \<and>
   config_tools (cleanupAll p) = config_tools p \<and>
   config_tools (fst (snd (executeTool e clock n params (p, net)))) = config_tools p"
  using registerTool_lookup [of t p] executeTool_registered [of e clock t params p net]
    registerTool_out_of_step [of p t] in_step_initializeTools [of p] in_step_new [of e cfg]
    in_step_removeTool [of n p] init_config_tools [of e p]
    executeTool_config_tools [of e clock n params p net]
  by (simp add: cleanupAll_def)

theorem registerTool_not_exposed_witness:
  "in_step (new_WhatsAppPlugin example_env None) \<and>
   \<not> hasTool (new_WhatsAppPlugin example_env None) (tool_name example_tool) \<and>
   \<not> in_step (registerTool example_tool (new_WhatsAppPlugin example_env None)) \<and>
   getToolCount (registerTool example_tool (new_WhatsAppPlugin example_env None)) = 10 \<and>
   length (config_tools (registerTool example_tool (new_WhatsAppPlugin example_env None))) = 9 \<and>
   fst (executeTool example_env (0, 0) ''echo'' [(''a'', JNull)]
      (registerTool example_tool (new_WhatsAppPlugin example_env None), [])) =
     Inr (JObj [(''a'', JNull)])"
proof -
  let ?p = "new_WhatsAppPlugin example_env None"
  have name: "tool_name example_tool = ''echo''" by (simp add: example_tool_def)
  have run: "tool_execute example_tool = Custom (\<lambda>params. Inr (JObj params))"
    by (simp add: example_tool_def)
  from registerTool_not_exposed
      [where t = example_tool and p = ?p and e = example_env and cfg = None
         and clock = "(0, 0)" and params = "[(''a'', JNull)]" and net = "[]"]
    name run echo_not_in_new_plugin [of example_env None] count_new_plugin [of example_env None]
  show ?thesis by simp
qed


end
